theory Spec2Isabelle
  imports Main "HOL-Library.Word"
begin

unbundle bit_operations_syntax

section \<open>Status values, error numbers and poll bits\<close>

text \<open>
  \<open>pdx::Status<T>\<close> carries either an error number or a value; \<open>ErrorStatus(e)\<close>
  builds the failing one. The error numbers and the poll bits come from the C library
  headers (\<open>errno.h\<close>, \<open>sys/poll.h\<close>).
\<close>

type_synonym 'a Status = "int + 'a"

definition ErrorStatus :: "int \<Rightarrow> 'a Status" where
  "ErrorStatus e = Inl e"

definition EPERM :: int where "EPERM = 1"
definition ENOENT :: int where "ENOENT = 2"
definition EINVAL :: int where "EINVAL = 22"
definition EOPNOTSUPP :: int where "EOPNOTSUPP = 95"

definition POLLIN :: "32 word" where "POLLIN = 1"
definition POLLOUT :: "32 word" where "POLLOUT = 4"

definition AID_ROOT :: int where "AID_ROOT = 0"

definition kDvrLensMetricsProperty :: string where
  "kDvrLensMetricsProperty = ''ro.dvr.lens_metrics''"
definition kDvrDeviceMetricsProperty :: string where
  "kDvrDeviceMetricsProperty = ''ro.dvr.device_metrics''"
definition kDvrDeviceConfigProperty :: string where
  "kDvrDeviceConfigProperty = ''ro.dvr.device_configuration''"

text \<open>
  Modelled from the spec: the enumeration \<open>display::ConfigFileType\<close> is declared in
  \<open>private/dvr/display_protocol.h\<close>, which is not among the sources. The spec lists
  LensMetrics, DeviceMetrics, DeviceConfiguration; the value arrives from the wire as an
  unsigned 32-bit number, so a number outside the enumeration reaches the handler's
  \<open>default\<close> branch.
\<close>

type_synonym ConfigFileType = "32 word"

definition kLensMetrics :: ConfigFileType where "kLensMetrics = 0"
definition kDeviceMetrics :: ConfigFileType where "kDeviceMetrics = 1"
definition kDeviceConfiguration :: ConfigFileType where "kDeviceConfiguration = 2"

section \<open>Data model\<close>

text \<open>
  \<open>DisplayManager\<close> is the channel object of the admitted client. Its fields are
  fixed at construction; the back-reference to the service always points to the one
  service and is left out. Member names are written without the trailing underscore of
  the source (\<open>channel_id\<close>, \<open>display_manager\<close>, \<open>display_service\<close>), and the
  queue's \<open>id()\<close> is \<open>id'\<close>. A \<open>std::shared_ptr<DisplayManager>\<close> is a
  \<open>DisplayManager option\<close> (\<open>None\<close> is \<open>nullptr\<close>); two pointers are equal when
  they denote the same object, and live channel objects are told apart by the channel id
  the transport issued.
\<close>

record DisplayManager =
  channel_id :: int

datatype SurfaceType = Application | Direct

type_synonym SurfaceAttributes = "(int \<times> int) list"

text \<open>
  Modelled from the spec: the buffer queue of a surface is not among the sources. The
  spec gives \<open>Queue.CreateConsumerHandle() -> Status<Handle>\<close>; the outcome of that call
  is a field of the queue.
\<close>

record ProducerQueue =
  id' :: int
  CreateConsumerQueueHandle :: "int Status"

text \<open>
  Modelled from the spec: \<open>DisplaySurface\<close> is not among the sources. The fields are
  the ones the handlers read: the snapshot attributes of the spec's SurfaceStateSnapshot,
  the surface type and the queues.
\<close>

record DisplaySurface =
  surface_id :: int
  process_id :: int
  user_id :: int
  surface_type :: SurfaceType
  attributes :: SurfaceAttributes
  update_flags :: "32 word"
  queues :: "ProducerQueue list"

text \<open>\<open>display::SurfaceState\<close>, built by the handler with a positional initialiser.\<close>

datatype SurfaceState =
  SurfaceState int int int SurfaceAttributes "32 word" "int list"

text \<open>
  Modelled from the spec: the display service is a collaborator that is not among the
  sources. Its registry is the list of surfaces in enumeration order; the named buffers it
  has handed out are kept by name.
\<close>

record DisplayService =
  surfaces :: "DisplaySurface list"
  named_buffers :: "(string \<times> int) list"

text \<open>
  Modelled from the spec: the transport endpoint is not among the sources. For every open
  channel it keeps the channel object set on acceptance and the readiness bits that
  \<open>ModifyReadiness(channel_handle, clear_mask, set_mask)\<close> changes.
\<close>

record ChannelData =
  channel_state :: "DisplayManager option"
  event_set :: "32 word"

type_synonym Endpoint = "int \<rightharpoonup> ChannelData"

text \<open>The requests of \<open>DisplayManagerProtocol\<close>, with their decoded arguments.\<close>

datatype Request =
    GetSurfaceState
  | GetSurfaceQueue int int
  | SetupNamedBuffer string nat "64 word"
  | GetConfigurationData ConfigFileType
  | OtherOp int

record Message =
  GetEffectiveUserId :: int
  GetChannelId :: int
  GetChannel :: "DisplayManager option"
  GetOp :: Request

text \<open>An \<open>ALOGE\<close> line: the format string and the numbers printed into it.\<close>

type_synonym LogEntry = "string \<times> int list"

text \<open>
  The service: its field \<open>display_manager\<close>, the shared display service, the endpoint it
  inherits from its base class, and the error log it writes.
\<close>

record DisplayManagerService =
  display_manager :: "DisplayManager option"
  display_service :: DisplayService
  endpoint :: Endpoint
  logcat :: "LogEntry list"

text \<open>
  What the platform supplies to the handlers: the trusted-uid predicate of
  \<open>private/dvr/trusted_uids.h\<close>, the property store and the file system of
  \<open>android-base\<close>, and the display service's own \<open>SetupNamedBuffer\<close>. None of them is
  among the sources; each is a parameter.
\<close>

record Platform =
  IsTrustedUid :: "int \<Rightarrow> bool"
  GetProperty :: "string \<Rightarrow> string \<Rightarrow> string"
  ReadFileToString :: "string \<Rightarrow> int + string"
  DisplayService_SetupNamedBuffer ::
    "DisplayService \<Rightarrow> string \<Rightarrow> nat \<Rightarrow> 64 word \<Rightarrow> int Status \<times> DisplayService"

definition ALOGE :: "LogEntry \<Rightarrow> DisplayManagerService \<Rightarrow> DisplayManagerService" where
  "ALOGE entry s = s\<lparr>logcat := logcat s @ [entry]\<rparr>"

section \<open>Collaborator operations\<close>

text \<open>
  Modelled from the spec: \<open>ModifyReadiness(channel_handle, clear_mask, set_mask) -> Status\<close>
  of the transport, which is not among the sources. On an open channel the bits of
  \<open>clear_mask\<close> are cleared, then the bits of \<open>set_mask\<close> are set; on a channel the
  endpoint does not know the call fails and changes nothing.
\<close>

definition ModifyChannelEvents ::
  "DisplayManagerService \<Rightarrow> int \<Rightarrow> 32 word \<Rightarrow> 32 word \<Rightarrow> unit Status \<times> DisplayManagerService"
where
  "ModifyChannelEvents s cid clear_mask set_mask =
     (case endpoint s cid of
        None \<Rightarrow> (ErrorStatus EINVAL, s)
      | Some cd \<Rightarrow>
          (Inr (),
           s\<lparr>endpoint := (endpoint s)(cid \<mapsto>
                cd\<lparr>event_set := (event_set cd AND NOT clear_mask) OR set_mask\<rparr>)\<rparr>))"

text \<open>
  Modelled from the spec: \<open>ForEachApplicationSurface(visit_fn)\<close> of the display service.
  The surfaces of the given type are visited in registry order; the visitor may change the
  surface it is handed and the variables it captured.
\<close>

fun ForEachDisplaySurface ::
  "SurfaceType \<Rightarrow> (DisplaySurface \<Rightarrow> 'a \<Rightarrow> DisplaySurface \<times> 'a) \<Rightarrow>
     DisplaySurface list \<Rightarrow> 'a \<Rightarrow> DisplaySurface list \<times> 'a"
where
  "ForEachDisplaySurface t action [] acc = ([], acc)"
| "ForEachDisplaySurface t action (surface # rest) acc =
     (if surface_type surface = t
      then (let (surface', acc') = action surface acc;
                (rest', acc'') = ForEachDisplaySurface t action rest acc'
            in (surface' # rest', acc''))
      else (let (rest', acc') = ForEachDisplaySurface t action rest acc
            in (surface # rest', acc')))"

text \<open>Modelled from the spec: the surface's update-flags are cleared (mark-as-seen).\<close>

definition ClearUpdate :: "DisplaySurface \<Rightarrow> DisplaySurface" where
  "ClearUpdate surface = surface\<lparr>update_flags := 0\<rparr>"

text \<open>Modelled from the spec: the snapshot's list of queue ids, one per queue of the surface.\<close>

definition GetQueueIds :: "DisplaySurface \<Rightarrow> int list" where
  "GetQueueIds surface = map id' (queues surface)"

text \<open>Modelled from the spec: \<open>GetSurfaceById(id) -> optional<Surface>\<close>.\<close>

definition GetDisplaySurface :: "DisplayService \<Rightarrow> int \<Rightarrow> DisplaySurface option" where
  "GetDisplaySurface ds sid = find (\<lambda>surface. surface_id surface = sid) (surfaces ds)"

text \<open>Modelled from the spec: \<open>Surface.GetQueue(queue_id) -> optional<Queue>\<close>.\<close>

definition GetQueue :: "DisplaySurface \<Rightarrow> int \<Rightarrow> ProducerQueue option" where
  "GetQueue surface qid = find (\<lambda>queue. id' queue = qid) (queues surface)"

section \<open>The service\<close>

definition SetNotificationsPending ::
  "DisplayManager \<Rightarrow> bool \<Rightarrow> DisplayManagerService \<Rightarrow> DisplayManagerService"
where
  "SetNotificationsPending dm pending s =
     (let (status, s') =
            ModifyChannelEvents s (channel_id dm)
              (if pending then 0 else POLLIN) (if pending then POLLIN else 0)
      in case status of
           Inl e \<Rightarrow>
             ALOGE (''DisplayManager::SetNotificationPending: Failed to modify channel events: %s'',
                    [e]) s'
         | Inr _ \<Rightarrow> s')"

text \<open>
  \<open>OnChannelOpen\<close> answers a rejected open with \<open>RemoteMethodError(message, EPERM)\<close> and
  returns \<open>nullptr\<close>: that is \<open>Inl EPERM\<close>. An accepted open returns the new channel
  object.
\<close>

definition OnChannelOpen ::
  "Platform \<Rightarrow> DisplayManagerService \<Rightarrow> Message \<Rightarrow>
     (int + DisplayManager) \<times> DisplayManagerService"
where
  "OnChannelOpen p s message =
     (let uid = GetEffectiveUserId message;
          trusted = (uid = AID_ROOT \<or> IsTrustedUid p uid)
      in if display_manager s \<noteq> None \<or> \<not> trusted
         then (Inl EPERM, s)
         else (let dm = \<lparr>channel_id = GetChannelId message\<rparr>
               in (Inr dm, s\<lparr>display_manager := Some dm\<rparr>)))"

definition OnChannelClose ::
  "DisplayManagerService \<Rightarrow> Message \<Rightarrow> DisplayManager option \<Rightarrow> DisplayManagerService"
where
  "OnChannelClose s message channel =
     (if display_manager s = channel then s\<lparr>display_manager := None\<rparr> else s)"

text \<open>
  \<open>OnGetSurfaceState\<close> dereferences \<open>display_manager\<close> without a check. With no live
  channel that is a null dereference: the handler has no result, \<open>None\<close>.
\<close>

definition OnGetSurfaceState ::
  "DisplayManagerService \<Rightarrow> Message \<Rightarrow>
     (SurfaceState list Status \<times> DisplayManagerService) option"
where
  "OnGetSurfaceState s message =
     (let (surfaces', items) =
            ForEachDisplaySurface Application
              (\<lambda>surface items.
                 (ClearUpdate surface,
                  items @ [SurfaceState (surface_id surface) (process_id surface)
                             (user_id surface) (attributes surface)
                             (update_flags surface) (GetQueueIds surface)]))
              (surfaces (display_service s)) [];
          s1 = s\<lparr>display_service := (display_service s)\<lparr>surfaces := surfaces'\<rparr>\<rparr>
      in case display_manager s1 of
           None \<Rightarrow> None
         | Some dm \<Rightarrow> Some (Inr items, SetNotificationsPending dm False s1))"

definition OnGetSurfaceQueue ::
  "DisplayManagerService \<Rightarrow> Message \<Rightarrow> int \<Rightarrow> int \<Rightarrow> int Status \<times> DisplayManagerService"
where
  "OnGetSurfaceQueue s message sid qid =
     (case GetDisplaySurface (display_service s) sid of
        None \<Rightarrow> (ErrorStatus EINVAL, s)
      | Some surface \<Rightarrow>
          if surface_type surface \<noteq> Application then (ErrorStatus EINVAL, s)
          else (case GetQueue surface qid of
                  None \<Rightarrow> (ErrorStatus EINVAL, s)
                | Some queue \<Rightarrow>
                    (let status = CreateConsumerQueueHandle queue
                     in case status of
                          Inl e \<Rightarrow>
                            (status,
                             ALOGE (''DisplayManagerService::OnGetSurfaceQueue: Failed to create consumer queue for queue_id=%d: %s'',
                                    [id' queue, e]) s)
                        | Inr _ \<Rightarrow> (status, s))))"

definition OnSetupNamedBuffer ::
  "Platform \<Rightarrow> DisplayManagerService \<Rightarrow> Message \<Rightarrow> string \<Rightarrow> nat \<Rightarrow> 64 word \<Rightarrow>
     int Status \<times> DisplayManagerService"
where
  "OnSetupNamedBuffer p s message name size' usage =
     (let uid = GetEffectiveUserId message;
          trusted = (uid = AID_ROOT \<or> IsTrustedUid p uid)
      in if \<not> trusted
         then (ErrorStatus EPERM,
               ALOGE (''DisplayService::SetupNamedBuffer: Named buffers may only be created by trusted UIDs: user_id=%d'',
                      [uid]) s)
         else (let (status, ds') =
                     DisplayService_SetupNamedBuffer p (display_service s) name size' usage
               in (status, s\<lparr>display_service := ds'\<rparr>)))"

definition OnGetConfigurationData ::
  "Platform \<Rightarrow> DisplayManagerService \<Rightarrow> Message \<Rightarrow> ConfigFileType \<Rightarrow>
     string Status \<times> DisplayManagerService"
where
  "OnGetConfigurationData p s message config_type =
     (if config_type \<noteq> kLensMetrics \<and> config_type \<noteq> kDeviceMetrics
         \<and> config_type \<noteq> kDeviceConfiguration
      then (ErrorStatus EINVAL, s)
      else (let property_name =
                  (if config_type = kLensMetrics then kDvrLensMetricsProperty
                   else if config_type = kDeviceMetrics then kDvrDeviceMetricsProperty
                   else kDvrDeviceConfigProperty);
                file_path = GetProperty p property_name ''''
            in if file_path = [] then (ErrorStatus ENOENT, s)
               else (case ReadFileToString p file_path of
                       Inl errno \<Rightarrow> (ErrorStatus errno, s)
                     | Inr data \<Rightarrow> (Inr data, s))))"

definition OnDisplaySurfaceChange :: "DisplayManagerService \<Rightarrow> DisplayManagerService" where
  "OnDisplaySurfaceChange s =
     (case display_manager s of
        None \<Rightarrow> s
      | Some dm \<Rightarrow> SetNotificationsPending dm True s)"

text \<open>
  What \<open>DispatchRemoteMethod\<close> sends back to the client: the handler's status, by
  request.
\<close>

datatype Reply =
    SurfaceStateReply "SurfaceState list Status"
  | SurfaceQueueReply "int Status"
  | NamedBufferReply "int Status"
  | ConfigurationDataReply "string Status"
  | DefaultReply "unit Status"

text \<open>
  Modelled from the spec: \<open>Service::DefaultHandleMessage\<close> of the base class is not among
  the sources. The channel-open and channel-close messages it serves are events of their
  own below; any other operation code is answered with an error and changes nothing.
\<close>

definition DefaultHandleMessage ::
  "DisplayManagerService \<Rightarrow> Message \<Rightarrow> Reply \<times> DisplayManagerService"
where
  "DefaultHandleMessage s message = (DefaultReply (ErrorStatus EOPNOTSUPP), s)"

text \<open>
  \<open>HandleMessage\<close> switches on the operation code. The channel it casts from
  \<open>message.GetChannel()\<close> is not used afterwards.
\<close>

definition HandleMessage ::
  "Platform \<Rightarrow> DisplayManagerService \<Rightarrow> Message \<Rightarrow> (Reply \<times> DisplayManagerService) option"
where
  "HandleMessage p s message =
     (case GetOp message of
        GetSurfaceState \<Rightarrow>
          (case OnGetSurfaceState s message of
             None \<Rightarrow> None
           | Some (r, s') \<Rightarrow> Some (SurfaceStateReply r, s'))
      | GetSurfaceQueue sid qid \<Rightarrow>
          (let (r, s') = OnGetSurfaceQueue s message sid qid
           in Some (SurfaceQueueReply r, s'))
      | SetupNamedBuffer name size' usage \<Rightarrow>
          (let (r, s') = OnSetupNamedBuffer p s message name size' usage
           in Some (NamedBufferReply r, s'))
      | GetConfigurationData config_type \<Rightarrow>
          (let (r, s') = OnGetConfigurationData p s message config_type
           in Some (ConfigurationDataReply r, s'))
      | OtherOp n \<Rightarrow> Some (DefaultHandleMessage s message))"

section \<open>Event delivery\<close>

text \<open>
  Modelled from the spec: the transport substrate and the display service's callback are
  not among the sources. The spec's contract: the transport delivers
  \<open>ChannelOpen(identity, channel_handle) -> accept(SessionObject) | reject(error_code)\<close>,
  \<open>ChannelClose(channel_handle)\<close> and \<open>Message(channel_handle, op_code, payload)\<close>,
  one at a time, and messages only on an open channel; the display service invokes the
  registered callback whenever a surface's configuration changes.
\<close>

datatype Event =
    ChannelOpen Message
  | ChannelClose Message
  | MessageEvent Message
  | SurfaceChange DisplayService

text \<open>
  Modelled from the spec: the lifecycle contract of the transport. A channel is opened
  under an id that is not in use. A close comes on a channel the endpoint knows and
  carries what is bound to it: the channel object, or \<open>nullptr\<close> when the open was
  rejected. A message comes only on a channel that was opened, that is, accepted, and not
  yet closed, and carries its channel object.
\<close>

definition lifecycle_ok :: "DisplayManagerService \<Rightarrow> Event \<Rightarrow> bool" where
  "lifecycle_ok s e =
     (case e of
        ChannelOpen m \<Rightarrow> endpoint s (GetChannelId m) = None \<and> GetChannel m = None
      | ChannelClose m \<Rightarrow>
          (case endpoint s (GetChannelId m) of
             None \<Rightarrow> False
           | Some cd \<Rightarrow> GetChannel m = channel_state cd)
      | MessageEvent m \<Rightarrow>
          (case endpoint s (GetChannelId m) of
             None \<Rightarrow> False
           | Some cd \<Rightarrow> channel_state cd \<noteq> None \<and> GetChannel m = channel_state cd)
      | SurfaceChange ds \<Rightarrow> True)"

text \<open>
  Modelled from the spec: the endpoint's bookkeeping. A new channel has no object and no
  readiness bit; the answer to an open is bound to the channel (the session object, or
  \<open>nullptr\<close> after a rejection); a closed channel is dropped.
\<close>

definition NewChannel :: "int \<Rightarrow> DisplayManagerService \<Rightarrow> DisplayManagerService" where
  "NewChannel cid s =
     s\<lparr>endpoint := (endpoint s)(cid \<mapsto> \<lparr>channel_state = None, event_set = 0\<rparr>)\<rparr>"

definition SetChannel ::
  "int \<Rightarrow> DisplayManager option \<Rightarrow> DisplayManagerService \<Rightarrow> DisplayManagerService"
where
  "SetChannel cid channel s =
     (case endpoint s cid of
        None \<Rightarrow> s
      | Some cd \<Rightarrow> s\<lparr>endpoint := (endpoint s)(cid \<mapsto> cd\<lparr>channel_state := channel\<rparr>)\<rparr>)"

definition CloseChannel :: "int \<Rightarrow> DisplayManagerService \<Rightarrow> DisplayManagerService" where
  "CloseChannel cid s = s\<lparr>endpoint := (endpoint s)(cid := None)\<rparr>"

text \<open>
  Modelled from the spec: one delivery. An open creates the channel at the endpoint, asks
  \<open>OnChannelOpen\<close> and binds what it returned to the channel; a rejected channel stays
  known to the endpoint, without an object, until its close is delivered. A close hands
  what is bound to the channel to \<open>OnChannelClose\<close> and removes the channel. A surface
  change replaces the registry and fires the callback. \<open>None\<close> is a null dereference in
  a handler.
\<close>

definition deliver ::
  "Platform \<Rightarrow> DisplayManagerService \<Rightarrow> Event \<Rightarrow> DisplayManagerService option"
where
  "deliver p s e =
     (case e of
        ChannelOpen m \<Rightarrow>
          (let (r, s') = OnChannelOpen p (NewChannel (GetChannelId m) s) m
           in case r of
                Inl err \<Rightarrow> Some (SetChannel (GetChannelId m) None s')
              | Inr dm \<Rightarrow> Some (SetChannel (GetChannelId m) (Some dm) s'))
      | ChannelClose m \<Rightarrow>
          Some (CloseChannel (GetChannelId m) (OnChannelClose s m (GetChannel m)))
      | MessageEvent m \<Rightarrow> map_option snd (HandleMessage p s m)
      | SurfaceChange ds \<Rightarrow> Some (OnDisplaySurfaceChange (s\<lparr>display_service := ds\<rparr>)))"

text \<open>
  A sequence of deliveries, one at a time. It stops at the first delivery that breaks the
  lifecycle contract and at the first null dereference.
\<close>

datatype Failure = ContractViolation | NullDereference

fun run ::
  "Platform \<Rightarrow> DisplayManagerService \<Rightarrow> Event list \<Rightarrow> Failure + DisplayManagerService"
where
  "run p s [] = Inr s"
| "run p s (e # es) =
     (if lifecycle_ok s e
      then (case deliver p s e of
              None \<Rightarrow> Inl NullDereference
            | Some s' \<Rightarrow> run p s' es)
      else Inl ContractViolation)"

text \<open>The service as constructed: no live channel, no open channel, an empty log.\<close>

definition initial :: "DisplayService \<Rightarrow> DisplayManagerService" where
  "initial ds =
     \<lparr>display_manager = None, display_service = ds, endpoint = Map.empty, logcat = []\<rparr>"

text \<open>
  The notification-pending flag of a channel is the \<open>POLLIN\<close> bit of its readiness bits
  at the endpoint.
\<close>

definition notifications_pending :: "DisplayManagerService \<Rightarrow> int \<Rightarrow> bool" where
  "notifications_pending s cid =
     (case endpoint s cid of
        None \<Rightarrow> False
      | Some cd \<Rightarrow> event_set cd AND POLLIN \<noteq> 0)"

text \<open>The channel objects that exist: the ones the endpoint or the service still refers to.\<close>

definition channel_objects :: "DisplayManagerService \<Rightarrow> DisplayManager set" where
  "channel_objects s =
     {dm. display_manager s = Some dm} \<union>
     {dm. \<exists>cid cd. endpoint s cid = Some cd \<and> channel_state cd = Some dm}"

text \<open>
  The shape the service keeps between deliveries: a channel object bound to a channel of
  the endpoint is the live one and carries that channel's id, and the live object is bound
  to the channel of its id.
\<close>

definition single_session :: "DisplayManagerService \<Rightarrow> bool" where
  "single_session s =
     ((\<forall>cid dm. map_option channel_state (endpoint s cid) = Some (Some dm) \<longrightarrow>
          dm = \<lparr>channel_id = cid\<rparr> \<and> display_manager s = Some dm)
    \<and> (\<forall>dm. display_manager s = Some dm \<longrightarrow>
          map_option channel_state (endpoint s (channel_id dm)) = Some (Some dm)))"

text \<open>
  The specification's reading of the notification-pending flag, over the deliveries since
  the channel was created: a surface mutation makes it true, a \<open>GetSurfaceState\<close> call
  makes it false, nothing else touches it.
\<close>

fun note_event :: "bool \<Rightarrow> Event \<Rightarrow> bool" where
  "note_event b (SurfaceChange ds) = True"
| "note_event b (MessageEvent m) = (if GetOp m = GetSurfaceState then False else b)"
| "note_event b (ChannelOpen m) = b"
| "note_event b (ChannelClose m) = b"

definition mutation_since_last_poll :: "Event list \<Rightarrow> bool" where
  "mutation_since_last_poll es = foldl note_event False es"

fun closes :: "int \<Rightarrow> Event \<Rightarrow> bool" where
  "closes cid (ChannelClose m) = (GetChannelId m = cid)"
| "closes cid e = False"

section \<open>Example inputs\<close>

definition example_platform :: Platform where
  "example_platform =
     \<lparr>IsTrustedUid = (\<lambda>uid. uid = 1000 \<or> uid = 1003),
      GetProperty = (\<lambda>name default.
         if name = kDvrDeviceMetricsProperty then ''/system/etc/device_metrics''
         else if name = kDvrLensMetricsProperty then ''/data/locked''
         else default),
      ReadFileToString = (\<lambda>path.
         if path = ''/system/etc/device_metrics'' then Inr ''metrics''
         else if path = ''/data/locked'' then Inl 13
         else Inl ENOENT),
      DisplayService_SetupNamedBuffer = (\<lambda>ds name size' usage.
         (case map_of (named_buffers ds) name of
            Some h \<Rightarrow> (Inr h, ds)
          | None \<Rightarrow>
              (Inr (int (length (named_buffers ds))),
               ds\<lparr>named_buffers :=
                    named_buffers ds @ [(name, int (length (named_buffers ds)))]\<rparr>)))\<rparr>"

definition example_message :: "int \<Rightarrow> int \<Rightarrow> DisplayManager option \<Rightarrow> Request \<Rightarrow> Message" where
  "example_message uid cid channel req =
     \<lparr>GetEffectiveUserId = uid, GetChannelId = cid, GetChannel = channel, GetOp = req\<rparr>"

definition example_surface :: "int \<Rightarrow> SurfaceType \<Rightarrow> 32 word \<Rightarrow> DisplaySurface" where
  "example_surface sid t flags =
     \<lparr>surface_id = sid, process_id = 100, user_id = 10001, surface_type = t,
      attributes = [(1, 1)], update_flags = flags,
      queues = [\<lparr>id' = 3, CreateConsumerQueueHandle = Inr 42\<rparr>,
                \<lparr>id' = 4, CreateConsumerQueueHandle = Inl 12\<rparr>]\<rparr>"

definition example_display_service :: DisplayService where
  "example_display_service =
     \<lparr>surfaces = [example_surface 1 Application 3, example_surface 2 Direct 1,
                  example_surface 5 Application 0],
      named_buffers = []\<rparr>"

definition empty_display_service :: DisplayService where
  "empty_display_service = \<lparr>surfaces = [], named_buffers = []\<rparr>"

definition example_live_state :: "DisplayService \<Rightarrow> 32 word \<Rightarrow> DisplayManagerService" where
  "example_live_state ds events =
     \<lparr>display_manager = Some \<lparr>channel_id = 7\<rparr>, display_service = ds,
      endpoint = [7 \<mapsto> \<lparr>channel_state = Some \<lparr>channel_id = 7\<rparr>, event_set = events\<rparr>],
      logcat = []\<rparr>"

text \<open>
  The specification's SurfaceStateSnapshot of a surface: surface id, process id, user id,
  attributes, update-flags and the ids of its queues.
\<close>

definition surface_snapshot :: "DisplaySurface \<Rightarrow> SurfaceState" where
  "surface_snapshot surface =
     SurfaceState (surface_id surface) (process_id surface) (user_id surface)
       (attributes surface) (update_flags surface) (map id' (queues surface))"

definition is_application :: "DisplaySurface \<Rightarrow> bool" where
  "is_application surface = (surface_type surface = Application)"

text \<open>
  The specification's \<open>Resolve\<close> for one property name: the path stored at the property;
  \<open>NotFound\<close> when it is empty, otherwise the outcome of reading the file (its contents,
  or the error number of the failed read).
\<close>

definition resolve_property :: "Platform \<Rightarrow> string \<Rightarrow> string Status" where
  "resolve_property p property_name =
     (let file_path = GetProperty p property_name ''''
      in if file_path = [] then Inl ENOENT else ReadFileToString p file_path)"

text \<open>
  A sequence of deliveries honours the lifecycle contract when each delivery is admitted
  in the state the earlier ones left. The contract says nothing about a handler's result:
  after a delivery without one there is no later state to constrain.
\<close>

fun honours_contract :: "Platform \<Rightarrow> DisplayManagerService \<Rightarrow> Event list \<Rightarrow> bool" where
  "honours_contract p s [] = True"
| "honours_contract p s (e # es) =
     (lifecycle_ok s e \<and>
      (case deliver p s e of
         None \<Rightarrow> True
       | Some s' \<Rightarrow> honours_contract p s' es))"

text \<open>The example registry after a \<open>GetSurfaceState\<close> call.\<close>

definition polled_display_service :: DisplayService where
  "polled_display_service =
     \<lparr>surfaces = [example_surface 1 Application 0, example_surface 2 Direct 1,
                  example_surface 5 Application 0],
      named_buffers = []\<rparr>"

section \<open>The single-session invariant\<close>

lemma SetNotificationsPending_display_manager [simp]:
  "display_manager (SetNotificationsPending dm b s) = display_manager s"
  by (simp add: SetNotificationsPending_def ModifyChannelEvents_def ALOGE_def ErrorStatus_def
      split: option.splits)

lemma SetNotificationsPending_display_service [simp]:
  "display_service (SetNotificationsPending dm b s) = display_service s"
  by (simp add: SetNotificationsPending_def ModifyChannelEvents_def ALOGE_def ErrorStatus_def
      split: option.splits)

lemma SetNotificationsPending_endpoint:
  "endpoint (SetNotificationsPending dm b s) cid =
     (if cid = channel_id dm
      then map_option
             (\<lambda>cd. cd\<lparr>event_set := (event_set cd AND NOT (if b then 0 else POLLIN))
                                     OR (if b then POLLIN else 0)\<rparr>)
             (endpoint s cid)
      else endpoint s cid)"
  by (simp add: SetNotificationsPending_def ModifyChannelEvents_def ALOGE_def ErrorStatus_def
      split: option.splits)

lemma SetNotificationsPending_channel_state [simp]:
  "map_option channel_state (endpoint (SetNotificationsPending dm b s) cid) =
     map_option channel_state (endpoint s cid)"
  by (simp add: SetNotificationsPending_endpoint option.map_comp comp_def)

lemma SetNotificationsPending_single_session [simp]:
  "single_session (SetNotificationsPending dm b s) = single_session s"
  by (simp add: single_session_def)

lemma OnGetSurfaceState_Some:
  "OnGetSurfaceState s m = Some (r, s') \<Longrightarrow>
     display_manager s' = display_manager s \<and>
     (\<forall>cid. map_option channel_state (endpoint s' cid) = map_option channel_state (endpoint s cid))"
  by (auto simp: OnGetSurfaceState_def Let_def split: prod.splits option.splits)

lemma OnGetSurfaceQueue_shape:
  "OnGetSurfaceQueue s m sid qid = (r, s') \<Longrightarrow>
     display_manager s' = display_manager s \<and> endpoint s' = endpoint s
     \<and> display_service s' = display_service s"
  by (auto simp: OnGetSurfaceQueue_def ALOGE_def Let_def split: option.splits if_splits sum.splits)

lemma OnSetupNamedBuffer_shape:
  "OnSetupNamedBuffer p s m name sz usage = (r, s') \<Longrightarrow>
     display_manager s' = display_manager s \<and> endpoint s' = endpoint s"
  by (auto simp: OnSetupNamedBuffer_def ALOGE_def Let_def split: prod.splits if_splits)

lemma OnGetConfigurationData_state:
  "snd (OnGetConfigurationData p s m t) = s"
  by (simp add: OnGetConfigurationData_def Let_def split: sum.splits)

lemma HandleMessage_shape:
  assumes "HandleMessage p s m = Some (r, s')"
  shows "display_manager s' = display_manager s"
    and "map_option channel_state (endpoint s' cid) = map_option channel_state (endpoint s cid)"
proof -
  have "display_manager s' = display_manager s \<and>
    (\<forall>cid. map_option channel_state (endpoint s' cid) = map_option channel_state (endpoint s cid))"
  proof (cases "GetOp m")
    case GetSurfaceState
    with assms show ?thesis
      by (auto simp: HandleMessage_def split: option.splits dest!: OnGetSurfaceState_Some)
  next
    case (GetSurfaceQueue sid qid)
    with assms show ?thesis
      by (auto simp: HandleMessage_def split: prod.splits dest!: OnGetSurfaceQueue_shape)
  next
    case (SetupNamedBuffer name sz usage)
    with assms show ?thesis
      by (auto simp: HandleMessage_def split: prod.splits dest!: OnSetupNamedBuffer_shape)
  next
    case (GetConfigurationData t)
    with assms OnGetConfigurationData_state [of p s m t] show ?thesis
      by (auto simp: HandleMessage_def split: prod.splits)
  next
    case (OtherOp n)
    with assms show ?thesis
      by (auto simp: HandleMessage_def DefaultHandleMessage_def)
  qed
  then show "display_manager s' = display_manager s"
    and "map_option channel_state (endpoint s' cid) = map_option channel_state (endpoint s cid)"
    by simp_all
qed

lemma HandleMessage_single_session:
  "HandleMessage p s m = Some (r, s') \<Longrightarrow> single_session s' = single_session s"
  by (simp add: single_session_def HandleMessage_shape)

lemma single_session_open:
  assumes "single_session s" and "endpoint s cid = Some cd" and "channel_state cd = Some dm"
  shows "dm = \<lparr>channel_id = cid\<rparr> \<and> display_manager s = Some dm"
proof -
  from assms(2,3) have "map_option channel_state (endpoint s cid) = Some (Some dm)"
    by simp
  with assms(1) show ?thesis
    unfolding single_session_def by blast
qed

lemma single_session_live:
  assumes "single_session s" and "display_manager s = Some dm"
  shows "\<exists>cd. endpoint s (channel_id dm) = Some cd \<and> channel_state cd = Some dm"
proof -
  from assms have "map_option channel_state (endpoint s (channel_id dm)) = Some (Some dm)"
    unfolding single_session_def by blast
  then show ?thesis
    by auto
qed

lemma OnDisplaySurfaceChange_single_session [simp]:
  "single_session (OnDisplaySurfaceChange s) = single_session s"
  by (simp add: OnDisplaySurfaceChange_def split: option.splits)

lemma display_service_update_single_session [simp]:
  "single_session (s\<lparr>display_service := ds\<rparr>) = single_session s"
  by (simp add: single_session_def)

lemma NewChannel_display_manager [simp]:
  "display_manager (NewChannel cid s) = display_manager s"
  by (simp add: NewChannel_def)

lemma CloseChannel_display_manager [simp]:
  "display_manager (CloseChannel cid s) = display_manager s"
  by (simp add: CloseChannel_def)

lemma SetChannel_display_manager [simp]:
  "display_manager (SetChannel cid channel s) = display_manager s"
  by (simp add: SetChannel_def split: option.splits)

lemma bound_after_open:
  "endpoint (SetChannel cid channel (NewChannel cid s)) =
     (endpoint s)(cid \<mapsto> \<lparr>channel_state = channel, event_set = 0\<rparr>)"
  by (simp add: SetChannel_def NewChannel_def)

lemma deliver_rejected_open:
  assumes "display_manager s \<noteq> None
      \<or> \<not> (GetEffectiveUserId m = AID_ROOT \<or> IsTrustedUid p (GetEffectiveUserId m))"
  shows "deliver p s (ChannelOpen m) = Some (SetChannel (GetChannelId m) None
           (NewChannel (GetChannelId m) s))"
  using assms by (auto simp: deliver_def OnChannelOpen_def Let_def)

lemma deliver_accepted_open:
  assumes "display_manager s = None"
    and "GetEffectiveUserId m = AID_ROOT \<or> IsTrustedUid p (GetEffectiveUserId m)"
  shows "deliver p s (ChannelOpen m) =
           Some (SetChannel (GetChannelId m) (Some \<lparr>channel_id = GetChannelId m\<rparr>)
                   ((NewChannel (GetChannelId m) s)
                      \<lparr>display_manager := Some \<lparr>channel_id = GetChannelId m\<rparr>\<rparr>))"
  using assms by (auto simp: deliver_def OnChannelOpen_def Let_def)

lemma HandleMessage_live:
  "display_manager s \<noteq> None \<Longrightarrow> HandleMessage p s m \<noteq> None"
  by (auto simp: HandleMessage_def OnGetSurfaceState_def Let_def
      split: Request.splits prod.splits option.splits)

lemma deliver_single_session:
  assumes inv: "single_session s" and ok: "lifecycle_ok s e" and step: "deliver p s e = Some s'"
  shows "single_session s'"
proof (cases e)
  case (ChannelOpen m)
  let ?cid = "GetChannelId m"
  from ChannelOpen ok have fresh: "endpoint s ?cid = None"
    by (simp add: lifecycle_ok_def)
  show ?thesis
  proof (cases "display_manager s \<noteq> None
      \<or> \<not> (GetEffectiveUserId m = AID_ROOT \<or> IsTrustedUid p (GetEffectiveUserId m))")
    case True
    from deliver_rejected_open [OF True] ChannelOpen step
    have s': "s' = SetChannel ?cid None (NewChannel ?cid s)" by simp
    have ep: "endpoint s' = (endpoint s)(?cid \<mapsto> \<lparr>channel_state = None, event_set = 0\<rparr>)"
      unfolding s' by (rule bound_after_open)
    have dm: "display_manager s' = display_manager s"
      unfolding s' by simp
    have elsewhere: "channel_id d \<noteq> ?cid" if "display_manager s = Some d" for d
      using single_session_live [OF inv that] fresh by auto
    from inv elsewhere show ?thesis
      unfolding single_session_def ep dm by auto
  next
    case False
    then have idle: "display_manager s = None"
      and trusted: "GetEffectiveUserId m = AID_ROOT \<or> IsTrustedUid p (GetEffectiveUserId m)"
      by simp_all
    let ?dm = "\<lparr>channel_id = ?cid\<rparr>"
    from deliver_accepted_open [OF idle trusted] ChannelOpen step
    have s': "s' = SetChannel ?cid (Some ?dm) ((NewChannel ?cid s)\<lparr>display_manager := Some ?dm\<rparr>)"
      by simp
    have ep: "endpoint s' = (endpoint s)(?cid \<mapsto> \<lparr>channel_state = Some ?dm, event_set = 0\<rparr>)"
      unfolding s' by (simp add: SetChannel_def NewChannel_def)
    have dm: "display_manager s' = Some ?dm"
      unfolding s' by simp
    have none: "map_option channel_state (endpoint s cid) \<noteq> Some (Some d)" for cid d
      using inv idle unfolding single_session_def by auto
    then show ?thesis
      unfolding single_session_def ep dm by auto
  qed
next
  case (ChannelClose m)
  let ?cid = "GetChannelId m"
  from ChannelClose ok obtain cd where cd: "endpoint s ?cid = Some cd"
    "GetChannel m = channel_state cd"
    by (auto simp: lifecycle_ok_def split: option.splits)
  from ChannelClose step
  have s': "s' = CloseChannel ?cid (OnChannelClose s m (channel_state cd))"
    by (simp add: deliver_def cd)
  have ep: "endpoint s' = (endpoint s)(?cid := None)"
    unfolding s' by (simp add: CloseChannel_def OnChannelClose_def)
  show ?thesis
  proof (cases "channel_state cd")
    case None
    have dm: "display_manager s' = display_manager s"
      unfolding s' by (simp add: OnChannelClose_def None)
    have elsewhere: "channel_id d \<noteq> ?cid" if "display_manager s = Some d" for d
      using single_session_live [OF inv that] cd(1) None by auto
    from inv elsewhere show ?thesis
      unfolding single_session_def ep dm by auto
  next
    case (Some d)
    from single_session_open [OF inv cd(1) Some]
    have d: "d = \<lparr>channel_id = ?cid\<rparr>" and live: "display_manager s = Some d"
      by simp_all
    have dm: "display_manager s' = None"
      unfolding s' by (simp add: OnChannelClose_def Some live)
    have "cid = ?cid" if "map_option channel_state (endpoint s cid) = Some (Some d')" for cid d'
    proof -
      from inv that have "d' = \<lparr>channel_id = cid\<rparr>" "display_manager s = Some d'"
        unfolding single_session_def by blast+
      with live d show ?thesis by simp
    qed
    then show ?thesis
      unfolding single_session_def ep dm by auto
  qed
next
  case (MessageEvent m)
  with step inv show ?thesis
    by (auto simp: deliver_def HandleMessage_single_session)
next
  case (SurfaceChange ds)
  with step inv show ?thesis
    by (auto simp: deliver_def)
qed

lemma single_session_initial: "single_session (initial ds)"
  by (simp add: single_session_def initial_def)

lemma run_single_session:
  "single_session s \<Longrightarrow> run p s es = Inr s' \<Longrightarrow> single_session s'"
proof (induction es arbitrary: s)
  case Nil
  then show ?case by simp
next
  case (Cons e es)
  then show ?case
    by (auto split: if_splits option.splits dest: deliver_single_session)
qed

lemma run_no_null_dereference:
  "single_session s \<Longrightarrow> run p s es \<noteq> Inl NullDereference"
proof (induction es arbitrary: s)
  case Nil
  then show ?case by simp
next
  case (Cons e es)
  show ?case
  proof (cases "lifecycle_ok s e")
    case False
    then show ?thesis by simp
  next
    case True
    have "deliver p s e \<noteq> None"
    proof (cases e)
      case (MessageEvent m)
      with True obtain cd d where "endpoint s (GetChannelId m) = Some cd"
        "channel_state cd = Some d"
        by (auto simp: lifecycle_ok_def split: option.splits)
      with Cons.prems have "display_manager s \<noteq> None"
        using single_session_open by fastforce
      with MessageEvent show ?thesis
        by (simp add: deliver_def HandleMessage_live)
    qed (auto simp: deliver_def split: prod.splits sum.splits)
    then obtain s' where s': "deliver p s e = Some s'" by auto
    with True Cons.prems have "single_session s'"
      using deliver_single_session by blast
    with Cons.IH s' True show ?thesis by simp
  qed
qed

section \<open>Channel admission\<close>

text \<open>
  C1. \<open>OnChannelOpen\<close> rejects with \<open>EPERM\<close> exactly when a display manager is already
  live or the requester is untrusted, where trusted means that the effective user id is
  \<open>AID_ROOT\<close> or satisfies \<open>IsTrustedUid\<close>. A rejection changes nothing. Otherwise the
  handler returns a new \<open>DisplayManager\<close> bound to the message's channel id and records
  it in \<open>display_manager\<close>.
\<close>

theorem OnChannelOpen_admission:
  fixes p s m
  defines "trusted \<equiv> GetEffectiveUserId m = AID_ROOT \<or> IsTrustedUid p (GetEffectiveUserId m)"
  defines "dm \<equiv> \<lparr>channel_id = GetChannelId m\<rparr>"
  shows "(fst (OnChannelOpen p s m) = Inl EPERM \<longleftrightarrow> display_manager s \<noteq> None \<or> \<not> trusted)
       \<and> (display_manager s \<noteq> None \<or> \<not> trusted \<longrightarrow> snd (OnChannelOpen p s m) = s)
       \<and> (display_manager s = None \<and> trusted \<longrightarrow>
            OnChannelOpen p s m = (Inr dm, s\<lparr>display_manager := Some dm\<rparr>))"
  by (simp add: OnChannelOpen_def trusted_def dm_def Let_def)

theorem OnChannelOpen_admission_witness:
  "fst (OnChannelOpen example_platform (initial empty_display_service)
         (example_message 0 7 None GetSurfaceState)) = Inr \<lparr>channel_id = 7\<rparr>
   \<and> display_manager (snd (OnChannelOpen example_platform (initial empty_display_service)
         (example_message 0 7 None GetSurfaceState))) = Some \<lparr>channel_id = 7\<rparr>
   \<and> fst (OnChannelOpen example_platform (initial empty_display_service)
         (example_message 5000 7 None GetSurfaceState)) = Inl EPERM
   \<and> fst (OnChannelOpen example_platform
         ((initial empty_display_service)\<lparr>display_manager := Some \<lparr>channel_id = 7\<rparr>\<rparr>)
         (example_message 0 8 None GetSurfaceState)) = Inl EPERM"
  using OnChannelOpen_admission [of example_platform "initial empty_display_service"
      "example_message 0 7 None GetSurfaceState"]
    OnChannelOpen_admission [of example_platform "initial empty_display_service"
      "example_message 5000 7 None GetSurfaceState"]
    OnChannelOpen_admission [of example_platform
      "(initial empty_display_service)\<lparr>display_manager := Some \<lparr>channel_id = 7\<rparr>\<rparr>"
      "example_message 0 8 None GetSurfaceState"]
  by (simp add: example_platform_def example_message_def initial_def AID_ROOT_def)

section \<open>Reachable states\<close>

lemma run_example_open:
  "run example_platform (initial ds) [ChannelOpen (example_message 0 7 None GetSurfaceState)]
     = Inr (example_live_state ds 0)"
  by (simp add: example_platform_def example_message_def initial_def example_live_state_def
      lifecycle_ok_def deliver_def OnChannelOpen_def NewChannel_def SetChannel_def AID_ROOT_def
      Let_def)

lemma single_session_objects:
  assumes "single_session s"
  shows "channel_objects s = {dm. display_manager s = Some dm}"
proof -
  have "display_manager s = Some dm"
    if "endpoint s cid = Some cd" "channel_state cd = Some dm" for cid cd dm
    using single_session_open [OF assms that] by simp
  then show ?thesis
    unfolding channel_objects_def by blast
qed

lemma card_option_set: "card {x. opt = Some x} \<le> 1"
  by (cases opt) simp_all

text \<open>
  C2. In every state reached from the constructed service by deliveries that honour the
  lifecycle contract, at most one \<open>DisplayManager\<close> object exists, and it is the one in
  \<open>display_manager\<close>. While one is live every admission attempt is rejected with
  \<open>EPERM\<close> and changes nothing, and a delivery clears \<open>display_manager\<close> exactly when it
  is the close of the live channel.
\<close>

theorem at_most_one_display_manager:
  assumes "run p (initial ds) es = Inr s"
  shows "channel_objects s = {dm. display_manager s = Some dm}
       \<and> card (channel_objects s) \<le> 1
       \<and> (display_manager s \<noteq> None \<longrightarrow>
            (\<forall>m. OnChannelOpen p s m = (Inl EPERM, s)
               \<and> (\<exists>s'. deliver p s (ChannelOpen m) = Some s'
                      \<and> display_manager s' = display_manager s)))
       \<and> (\<forall>e s'. lifecycle_ok s e \<and> deliver p s e = Some s' \<and> display_manager s \<noteq> None \<longrightarrow>
            (display_manager s' = None \<longleftrightarrow>
               (\<exists>m. e = ChannelClose m \<and> GetChannel m = display_manager s)))"
proof -
  have inv: "single_session s"
    using assms single_session_initial run_single_session by blast
  have objs: "channel_objects s = {dm. display_manager s = Some dm}"
    using inv by (rule single_session_objects)
  have card: "card (channel_objects s) \<le> 1"
    unfolding objs by (rule card_option_set)
  have reject: "OnChannelOpen p s m = (Inl EPERM, s)" if "display_manager s \<noteq> None" for m
    using that by (simp add: OnChannelOpen_def Let_def)
  have reject': "\<exists>s'. deliver p s (ChannelOpen m) = Some s'
      \<and> display_manager s' = display_manager s"
    if "display_manager s \<noteq> None" for m
    using deliver_rejected_open [of s m p] that by simp
  have clear: "display_manager s' = None \<longleftrightarrow>
      (\<exists>m. e = ChannelClose m \<and> GetChannel m = display_manager s)"
    if ok: "lifecycle_ok s e" and step: "deliver p s e = Some s'"
      and live: "display_manager s \<noteq> None" for e s'
  proof (cases e)
    case (ChannelOpen m)
    with reject' [OF live, of m] step live show ?thesis by auto
  next
    case (ChannelClose m)
    with step have "display_manager s' =
        (if display_manager s = GetChannel m then None else display_manager s)"
      by (auto simp: deliver_def OnChannelClose_def)
    with ChannelClose live show ?thesis
      by auto
  next
    case (MessageEvent m)
    with step obtain r where "HandleMessage p s m = Some (r, s')"
      by (auto simp: deliver_def)
    from HandleMessage_shape(1) [OF this] MessageEvent live show ?thesis
      by simp
  next
    case (SurfaceChange ds')
    with step live show ?thesis
      by (auto simp: deliver_def OnDisplaySurfaceChange_def)
  qed
  from objs card reject reject' clear show ?thesis
    by blast
qed

theorem at_most_one_display_manager_witness:
  "run example_platform (initial empty_display_service)
     [ChannelOpen (example_message 0 7 None GetSurfaceState),
      ChannelOpen (example_message 1000 8 None GetSurfaceState),
      ChannelClose (example_message 1000 8 None GetSurfaceState)]
     = Inr (example_live_state empty_display_service 0)
   \<and> channel_objects (example_live_state empty_display_service 0) = {\<lparr>channel_id = 7\<rparr>}
   \<and> OnChannelOpen example_platform (example_live_state empty_display_service 0)
        (example_message 0 8 None GetSurfaceState)
       = (Inl EPERM, example_live_state empty_display_service 0)"
proof -
  let ?s = "example_live_state empty_display_service 0"
  have r: "run example_platform (initial empty_display_service)
     [ChannelOpen (example_message 0 7 None GetSurfaceState),
      ChannelOpen (example_message 1000 8 None GetSurfaceState),
      ChannelClose (example_message 1000 8 None GetSurfaceState)] = Inr ?s"
    by (simp add: example_platform_def example_message_def initial_def example_live_state_def
        lifecycle_ok_def deliver_def OnChannelOpen_def OnChannelClose_def NewChannel_def
        SetChannel_def CloseChannel_def AID_ROOT_def Let_def fun_upd_twist)
  have live: "display_manager ?s \<noteq> None"
    by (simp add: example_live_state_def)
  have "{dm. display_manager ?s = Some dm} = {\<lparr>channel_id = 7\<rparr>}"
    by (auto simp: example_live_state_def)
  with at_most_one_display_manager [OF r] live r show ?thesis
    by simp
qed

lemma OnGetSurfaceState_live:
  "display_manager s \<noteq> None \<Longrightarrow> OnGetSurfaceState s m \<noteq> None"
  by (auto simp: OnGetSurfaceState_def Let_def split: prod.splits option.splits)

text \<open>
  C9. Under the lifecycle contract (a message is delivered only on a channel that was
  opened and not yet closed), every message finds a live \<open>DisplayManager\<close>, the one of
  its own channel: the unchecked dereference in \<open>OnGetSurfaceState\<close> is safe, the
  handler returns, and no sequence of deliveries ends in a null dereference.
\<close>

theorem message_dereference_safe:
  assumes "run p (initial ds) es = Inr s" and "lifecycle_ok s (MessageEvent m)"
  shows "display_manager s \<noteq> None
       \<and> display_manager s = GetChannel m
       \<and> OnGetSurfaceState s m \<noteq> None
       \<and> deliver p s (MessageEvent m) \<noteq> None
       \<and> run p (initial ds) es' \<noteq> Inl NullDereference"
proof -
  have inv: "single_session s"
    using assms(1) single_session_initial run_single_session by blast
  from assms(2) obtain cd d where cd: "endpoint s (GetChannelId m) = Some cd"
    "channel_state cd = Some d" "GetChannel m = Some d"
    by (auto simp: lifecycle_ok_def split: option.splits)
  from single_session_open [OF inv cd(1,2)] cd(3)
  have live: "display_manager s \<noteq> None" and same: "display_manager s = GetChannel m"
    by simp_all
  from live have "OnGetSurfaceState s m \<noteq> None"
    by (rule OnGetSurfaceState_live)
  moreover from live have "deliver p s (MessageEvent m) \<noteq> None"
    by (simp add: deliver_def HandleMessage_live)
  moreover have "run p (initial ds) es' \<noteq> Inl NullDereference"
    using single_session_initial by (rule run_no_null_dereference)
  ultimately show ?thesis
    using live same by simp
qed

theorem message_dereference_safe_witness:
  "run example_platform (initial empty_display_service)
     [ChannelOpen (example_message 0 7 None GetSurfaceState)]
     = Inr (example_live_state empty_display_service 0)
   \<and> lifecycle_ok (example_live_state empty_display_service 0)
        (MessageEvent (example_message 0 7 (Some \<lparr>channel_id = 7\<rparr>) GetSurfaceState))
   \<and> OnGetSurfaceState (example_live_state empty_display_service 0)
        (example_message 0 7 (Some \<lparr>channel_id = 7\<rparr>) GetSurfaceState) \<noteq> None"
proof -
  let ?s = "example_live_state empty_display_service 0"
  let ?m = "example_message 0 7 (Some \<lparr>channel_id = 7\<rparr>) GetSurfaceState"
  have r: "run example_platform (initial empty_display_service)
     [ChannelOpen (example_message 0 7 None GetSurfaceState)] = Inr ?s"
    by (rule run_example_open)
  have ok: "lifecycle_ok ?s (MessageEvent ?m)"
    by (simp add: lifecycle_ok_def example_live_state_def example_message_def)
  from message_dereference_safe [OF r ok] r ok show ?thesis
    by simp
qed

section \<open>Surface state and notifications\<close>

lemma POLLIN_cleared: "((w AND NOT POLLIN) OR 0) AND POLLIN = 0"
  by (simp add: and.assoc)

lemma POLLIN_set: "((w AND NOT 0) OR POLLIN) AND POLLIN \<noteq> 0"
  by (simp add: POLLIN_def bit.conj_disj_distrib2)

lemma pending_after_SetNotificationsPending:
  "endpoint s (channel_id dm) \<noteq> None \<Longrightarrow>
     notifications_pending (SetNotificationsPending dm b s) (channel_id dm) = b"
  using POLLIN_cleared POLLIN_set
  by (auto simp: notifications_pending_def SetNotificationsPending_endpoint)

lemma not_pending_after_disarm:
  "\<not> notifications_pending (SetNotificationsPending dm False s) (channel_id dm)"
  using POLLIN_cleared
  by (auto simp: notifications_pending_def SetNotificationsPending_endpoint split: option.splits)

lemma ForEachDisplaySurface_snapshot:
  "ForEachDisplaySurface Application
     (\<lambda>surface items.
        (ClearUpdate surface,
         items @ [SurfaceState (surface_id surface) (process_id surface)
                    (user_id surface) (attributes surface)
                    (update_flags surface) (GetQueueIds surface)]))
     xs acc =
   (map (\<lambda>x. if is_application x then ClearUpdate x else x) xs,
    acc @ map surface_snapshot (filter is_application xs))"
  by (induction xs arbitrary: acc)
    (simp_all add: surface_snapshot_def is_application_def GetQueueIds_def)

lemma OnGetSurfaceState_eq:
  "display_manager s = Some dm \<Longrightarrow>
   OnGetSurfaceState s m =
     Some (Inr (map surface_snapshot (filter is_application (surfaces (display_service s)))),
           SetNotificationsPending dm False
             (s\<lparr>display_service := (display_service s)\<lparr>surfaces :=
                  map (\<lambda>x. if is_application x then ClearUpdate x else x)
                    (surfaces (display_service s))\<rparr>\<rparr>))"
  by (simp add: OnGetSurfaceState_def ForEachDisplaySurface_snapshot)

text \<open>
  C3. With a live channel, \<open>OnGetSurfaceState\<close> succeeds for every registry (an empty
  one gives the empty list) and returns one snapshot per application surface present at
  the call, in registry order, each with the update-flags the surface had. It clears the
  update-flags of exactly those surfaces and then disarms the live channel: the
  notification-pending flag is false after the call, and nothing else changes.
\<close>

theorem OnGetSurfaceState_snapshots:
  assumes "display_manager s = Some dm"
  shows "case OnGetSurfaceState s m of
           None \<Rightarrow> False
         | Some (r, s') \<Rightarrow>
             r = Inr (map surface_snapshot
                        (filter is_application (surfaces (display_service s))))
           \<and> surfaces (display_service s') =
                map (\<lambda>x. if is_application x then x\<lparr>update_flags := 0\<rparr> else x)
                  (surfaces (display_service s))
           \<and> named_buffers (display_service s') = named_buffers (display_service s)
           \<and> display_manager s' = Some dm
           \<and> \<not> notifications_pending s' (channel_id dm)
           \<and> (\<forall>cid. cid \<noteq> channel_id dm \<longrightarrow> endpoint s' cid = endpoint s cid)
           \<and> (\<forall>cd. endpoint s (channel_id dm) = Some cd \<longrightarrow>
                 endpoint s' (channel_id dm) =
                   Some (cd\<lparr>event_set := event_set cd AND NOT POLLIN\<rparr>)
                 \<and> logcat s' = logcat s)"
proof -
  let ?s1 = "s\<lparr>display_service := (display_service s)\<lparr>surfaces :=
                  map (\<lambda>x. if is_application x then ClearUpdate x else x)
                    (surfaces (display_service s))\<rparr>\<rparr>"
  let ?s' = "SetNotificationsPending dm False ?s1"
  have quiet: "\<not> notifications_pending ?s' (channel_id dm)"
    by (rule not_pending_after_disarm)
  have log: "logcat ?s' = logcat s" if "endpoint s (channel_id dm) = Some cd" for cd
    using that
    by (simp add: SetNotificationsPending_def ModifyChannelEvents_def)
  have "(\<lambda>x. if is_application x then ClearUpdate x else x) =
      (\<lambda>x. if is_application x then x\<lparr>update_flags := 0\<rparr> else x)"
    unfolding ClearUpdate_def by (rule refl)
  then have cleared: "surfaces (display_service ?s') =
            map (\<lambda>x. if is_application x then x\<lparr>update_flags := 0\<rparr> else x)
              (surfaces (display_service s))"
    by simp
  have others: "endpoint ?s' cid = endpoint s cid" if "cid \<noteq> channel_id dm" for cid
    using that by (simp add: SetNotificationsPending_endpoint)
  have own: "endpoint ?s' (channel_id dm) =
      Some (cd\<lparr>event_set := event_set cd AND NOT POLLIN\<rparr>)"
    if "endpoint s (channel_id dm) = Some cd" for cd
    using that by (simp add: SetNotificationsPending_endpoint)
  have "named_buffers (display_service ?s') = named_buffers (display_service s)"
    and "display_manager ?s' = Some dm"
    using assms by simp_all
  with quiet log cleared others own show ?thesis
    unfolding OnGetSurfaceState_eq [OF assms, of m] by simp
qed

theorem OnGetSurfaceState_snapshots_witness:
  "case OnGetSurfaceState (example_live_state example_display_service 1)
           (example_message 0 7 (Some \<lparr>channel_id = 7\<rparr>) GetSurfaceState) of
     None \<Rightarrow> False
   | Some (r, s') \<Rightarrow>
       r = Inr [SurfaceState 1 100 10001 [(1, 1)] 3 [3, 4],
                SurfaceState 5 100 10001 [(1, 1)] 0 [3, 4]]
     \<and> map update_flags (surfaces (display_service s')) = [0, 1, 0]
     \<and> \<not> notifications_pending s' 7"
proof -
  let ?s = "example_live_state example_display_service 1"
  let ?m = "example_message 0 7 (Some \<lparr>channel_id = 7\<rparr>) GetSurfaceState"
  have live: "display_manager ?s = Some \<lparr>channel_id = 7\<rparr>"
    by (simp add: example_live_state_def)
  have "surfaces (display_service ?s) =
      [example_surface 1 Application 3, example_surface 2 Direct 1,
       example_surface 5 Application 0]"
    by (simp add: example_live_state_def example_display_service_def)
  with OnGetSurfaceState_snapshots [OF live, of ?m] show ?thesis
    by (auto simp: example_surface_def surface_snapshot_def is_application_def
        split: option.splits)
qed

lemma pending_display_service_update [simp]:
  "notifications_pending (s\<lparr>display_service := ds\<rparr>) cid = notifications_pending s cid"
  by (simp add: notifications_pending_def)

lemma HandleMessage_endpoint:
  assumes "HandleMessage p s m = Some (r, s')" and "GetOp m \<noteq> GetSurfaceState"
  shows "endpoint s' = endpoint s"
proof (cases "GetOp m")
  case GetSurfaceState
  with assms(2) show ?thesis by simp
next
  case (GetSurfaceQueue sid qid)
  with assms(1) show ?thesis
    by (auto simp: HandleMessage_def split: prod.splits dest!: OnGetSurfaceQueue_shape)
next
  case (SetupNamedBuffer name sz usage)
  with assms(1) show ?thesis
    by (auto simp: HandleMessage_def split: prod.splits dest!: OnSetupNamedBuffer_shape)
next
  case (GetConfigurationData t)
  with assms(1) OnGetConfigurationData_state [of p s m t] show ?thesis
    by (auto simp: HandleMessage_def split: prod.splits)
next
  case (OtherOp n)
  with assms(1) show ?thesis
    by (auto simp: HandleMessage_def DefaultHandleMessage_def)
qed

lemma deliver_tracks_flag:
  assumes inv: "single_session s" and live: "display_manager s = Some dm"
    and ok: "lifecycle_ok s e" and step: "deliver p s e = Some s'"
    and keep: "\<not> closes (channel_id dm) e"
  shows "display_manager s' = Some dm"
    and "notifications_pending s' (channel_id dm)
           = note_event (notifications_pending s (channel_id dm)) e"
proof -
  from single_session_live [OF inv live]
  obtain cd0 where cd0: "endpoint s (channel_id dm) = Some cd0" "channel_state cd0 = Some dm"
    by auto
  have "display_manager s' = Some dm \<and> notifications_pending s' (channel_id dm)
           = note_event (notifications_pending s (channel_id dm)) e"
  proof (cases e)
    case (ChannelOpen m)
    with ok cd0 have other: "GetChannelId m \<noteq> channel_id dm"
      by (auto simp: lifecycle_ok_def)
    from deliver_rejected_open [of s m p] live ChannelOpen step
    have s': "s' = SetChannel (GetChannelId m) None (NewChannel (GetChannelId m) s)"
      by simp
    have "endpoint s' (channel_id dm) = endpoint s (channel_id dm)"
      unfolding s' bound_after_open using other by simp
    with ChannelOpen live show ?thesis
      by (simp add: s' notifications_pending_def)
  next
    case (ChannelClose m)
    with keep have other: "GetChannelId m \<noteq> channel_id dm" by simp
    from ChannelClose ok obtain cd where cd: "endpoint s (GetChannelId m) = Some cd"
      "GetChannel m = channel_state cd"
      by (auto simp: lifecycle_ok_def split: option.splits)
    have "channel_state cd \<noteq> Some dm"
      using single_session_open [OF inv cd(1)] other by auto
    with ChannelClose step cd(2) live other show ?thesis
      by (auto simp: deliver_def OnChannelClose_def CloseChannel_def notifications_pending_def)
  next
    case (MessageEvent m)
    with step obtain r where h: "HandleMessage p s m = Some (r, s')"
      by (auto simp: deliver_def)
    show ?thesis
    proof (cases "GetOp m = GetSurfaceState")
      case True
      with h live not_pending_after_disarm MessageEvent show ?thesis
        by (auto simp: HandleMessage_def OnGetSurfaceState_eq)
    next
      case False
      with HandleMessage_endpoint [OF h] HandleMessage_shape(1) [OF h] live MessageEvent
      show ?thesis
        by (simp add: notifications_pending_def)
    qed
  next
    case (SurfaceChange ds)
    with step live have "s' = SetNotificationsPending dm True (s\<lparr>display_service := ds\<rparr>)"
      by (simp add: deliver_def OnDisplaySurfaceChange_def)
    with cd0(1) live SurfaceChange show ?thesis
      by (simp add: pending_after_SetNotificationsPending)
  qed
  then show "display_manager s' = Some dm"
    and "notifications_pending s' (channel_id dm)
           = note_event (notifications_pending s (channel_id dm)) e"
    by simp_all
qed

lemma run_tracks_flag:
  assumes "single_session s" and "display_manager s = Some dm"
    and "run p s es = Inr s'" and "\<not> list_ex (closes (channel_id dm)) es"
  shows "display_manager s' = Some dm \<and>
         notifications_pending s' (channel_id dm)
           = foldl note_event (notifications_pending s (channel_id dm)) es"
  using assms
proof (induction es arbitrary: s)
  case Nil
  then show ?case by simp
next
  case (Cons e es)
  from Cons.prems(3) obtain s1 where ok: "lifecycle_ok s e" and step: "deliver p s e = Some s1"
    and rest: "run p s1 es = Inr s'"
    by (auto split: if_splits option.splits)
  from Cons.prems(4) have keep: "\<not> closes (channel_id dm) e"
    and keeps: "\<not> list_ex (closes (channel_id dm)) es"
    by simp_all
  from deliver_single_session [OF Cons.prems(1) ok step] have inv1: "single_session s1" .
  from deliver_tracks_flag [OF Cons.prems(1,2) ok step keep]
  have live1: "display_manager s1 = Some dm"
    and flag1: "notifications_pending s1 (channel_id dm)
           = note_event (notifications_pending s (channel_id dm)) e"
    by simp_all
  from Cons.IH [OF inv1 live1 rest keeps] flag1 show ?case
    by simp
qed

lemma repeated_change_idempotent:
  assumes "notifications_pending s cid"
  shows "endpoint (SetNotificationsPending \<lparr>channel_id = cid\<rparr> True (s\<lparr>display_service := ds\<rparr>))
           = endpoint s"
proof -
  from assms obtain cd where cd: "endpoint s cid = Some cd" "event_set cd AND POLLIN \<noteq> 0"
    by (auto simp: notifications_pending_def split: option.splits)
  have "odd (event_set cd)"
  proof
    assume "even (event_set cd)"
    then have "event_set cd AND POLLIN = 0"
      by (simp add: POLLIN_def and_one_eq even_iff_mod_2_eq_zero)
    with cd(2) show False by simp
  qed
  then have "event_set cd OR POLLIN = event_set cd"
    by (simp add: POLLIN_def or_one_eq)
  with cd(1) show ?thesis
    by (auto simp: fun_eq_iff SetNotificationsPending_endpoint)
qed

lemma honours_contract_run:
  "honours_contract p s es \<Longrightarrow> run p s es \<noteq> Inl ContractViolation"
  by (induction es arbitrary: s) (auto split: option.splits)

lemma run_returns:
  assumes "single_session s" and "honours_contract p s es"
  shows "\<exists>s'. run p s es = Inr s'"
proof (cases "run p s es")
  case (Inl failure)
  with run_no_null_dereference [OF assms(1), of p es] honours_contract_run [OF assms(2)]
  show ?thesis
    by (cases failure) simp_all
next
  case (Inr s')
  then show ?thesis by simp
qed

lemma run_honours_contract:
  "run p s es = Inr s' \<Longrightarrow> honours_contract p s es"
  by (induction es arbitrary: s) (auto split: if_splits option.splits)

lemma example_poll:
  "deliver example_platform (example_live_state example_display_service 1)
     (MessageEvent (example_message 0 7 (Some \<lparr>channel_id = 7\<rparr>) GetSurfaceState))
   = Some (example_live_state polled_display_service 0)"
  by (simp add: deliver_def HandleMessage_def OnGetSurfaceState_def example_message_def
      example_live_state_def example_display_service_def example_surface_def
      polled_display_service_def ClearUpdate_def GetQueueIds_def SetNotificationsPending_def
      ModifyChannelEvents_def POLLIN_def Let_def)

lemma run_append:
  "run p s (es @ es') = (case run p s es of Inl failure \<Rightarrow> Inl failure | Inr s' \<Rightarrow> run p s' es')"
  by (induction es arbitrary: s) (auto split: option.splits)

lemma run_single:
  "lifecycle_ok s e \<Longrightarrow> deliver p s e = Some s' \<Longrightarrow> run p s [e] = Inr s'"
  by simp

text \<open>
  C4. Take a reachable state with no live channel, an accepted open that creates the
  channel, and any further deliveries in which the channel is not closed. The flag is
  false at creation. The further deliveries never end in a null dereference, and when
  they honour the lifecycle contract they return: every \<open>GetSurfaceState\<close> call among
  them comes back. In the state they return, the channel is still live and its
  notification-pending flag is true exactly when a surface mutation was delivered since
  the last \<open>GetSurfaceState\<close> call, or since the creation when there was none. One more
  mutation leaves the flag true, and changes nothing at the endpoint when the flag was
  already true. A mutation with no live channel changes nothing.
\<close>

theorem notification_flag_tracks_mutations:
  assumes reach: "run p (initial ds) es0 = Inr s0"
    and idle: "display_manager s0 = None"
    and ok: "lifecycle_ok s0 (ChannelOpen m)"
    and opened: "deliver p s0 (ChannelOpen m) = Some s1"
    and admitted: "display_manager s1 = Some dm"
    and live: "\<not> list_ex (closes (channel_id dm)) es"
  shows "\<not> notifications_pending s1 (channel_id dm)
       \<and> run p s1 es \<noteq> Inl NullDereference
       \<and> (honours_contract p s1 es \<longrightarrow> (\<exists>s2. run p s1 es = Inr s2))
       \<and> (case run p s1 es of
             Inl failure \<Rightarrow> failure = ContractViolation
           | Inr s2 \<Rightarrow>
               display_manager s2 = Some dm
             \<and> (notifications_pending s2 (channel_id dm) \<longleftrightarrow> mutation_since_last_poll es)
             \<and> (\<forall>ds'. notifications_pending
                         (OnDisplaySurfaceChange (s2\<lparr>display_service := ds'\<rparr>)) (channel_id dm)
                    \<and> (notifications_pending s2 (channel_id dm) \<longrightarrow>
                          endpoint (OnDisplaySurfaceChange (s2\<lparr>display_service := ds'\<rparr>))
                            = endpoint s2)))
       \<and> (\<forall>s. display_manager s = None \<longrightarrow> OnDisplaySurfaceChange s = s)"
proof -
  have inv0: "single_session s0"
    using reach single_session_initial run_single_session by blast
  from deliver_single_session [OF inv0 ok opened] have inv1: "single_session s1" .
  from opened idle admitted have dm: "dm = \<lparr>channel_id = GetChannelId m\<rparr>"
    and s1: "s1 = SetChannel (GetChannelId m) (Some dm)
                    ((NewChannel (GetChannelId m) s0)\<lparr>display_manager := Some dm\<rparr>)"
    by (auto simp: deliver_def OnChannelOpen_def Let_def split: if_splits)
  have fresh: "\<not> notifications_pending s1 (channel_id dm)"
    unfolding s1 by (simp add: dm notifications_pending_def SetChannel_def NewChannel_def)
  have safe: "run p s1 es \<noteq> Inl NullDereference"
    using inv1 by (rule run_no_null_dereference)
  have returns: "\<exists>s2. run p s1 es = Inr s2" if "honours_contract p s1 es"
    using inv1 that by (rule run_returns)
  have quiet: "OnDisplaySurfaceChange s = s" if "display_manager s = None" for s
    using that by (simp add: OnDisplaySurfaceChange_def)
  have outcome: "case run p s1 es of
             Inl failure \<Rightarrow> failure = ContractViolation
           | Inr s2 \<Rightarrow>
               display_manager s2 = Some dm
             \<and> (notifications_pending s2 (channel_id dm) \<longleftrightarrow> mutation_since_last_poll es)
             \<and> (\<forall>ds'. notifications_pending
                         (OnDisplaySurfaceChange (s2\<lparr>display_service := ds'\<rparr>)) (channel_id dm)
                    \<and> (notifications_pending s2 (channel_id dm) \<longrightarrow>
                          endpoint (OnDisplaySurfaceChange (s2\<lparr>display_service := ds'\<rparr>))
                            = endpoint s2))"
  proof (cases "run p s1 es")
    case (Inl failure)
    with safe show ?thesis
      by (cases failure) simp_all
  next
    case (Inr s2)
    from run_tracks_flag [OF inv1 admitted Inr live] fresh
    have live2: "display_manager s2 = Some dm"
      and flag: "notifications_pending s2 (channel_id dm) \<longleftrightarrow> mutation_since_last_poll es"
      by (simp_all add: mutation_since_last_poll_def)
    from run_single_session [OF inv1 Inr] have inv2: "single_session s2" .
    from single_session_live [OF inv2 live2]
    have open2: "endpoint s2 (channel_id dm) \<noteq> None" by auto
    have again: "notifications_pending (OnDisplaySurfaceChange (s2\<lparr>display_service := ds'\<rparr>))
                     (channel_id dm)" for ds'
      using live2 open2
      by (simp add: OnDisplaySurfaceChange_def pending_after_SetNotificationsPending)
    have once: "endpoint (OnDisplaySurfaceChange (s2\<lparr>display_service := ds'\<rparr>)) = endpoint s2"
      if "notifications_pending s2 (channel_id dm)" for ds'
    proof -
      have "dm = \<lparr>channel_id = channel_id dm\<rparr>" by simp
      with repeated_change_idempotent [OF that, of ds'] live2 show ?thesis
        by (simp add: OnDisplaySurfaceChange_def)
    qed
    from live2 flag again once show ?thesis
      unfolding Inr by simp
  qed
  from fresh safe returns outcome quiet show ?thesis
    by blast
qed

theorem notification_flag_tracks_mutations_witness:
  "run example_platform (initial empty_display_service)
     [ChannelOpen (example_message 0 7 None GetSurfaceState),
      SurfaceChange example_display_service,
      ChannelOpen (example_message 1000 8 None GetSurfaceState),
      SurfaceChange example_display_service,
      ChannelClose (example_message 1000 8 None GetSurfaceState),
      MessageEvent (example_message 0 7 (Some \<lparr>channel_id = 7\<rparr>) GetSurfaceState)]
     = Inr (example_live_state polled_display_service 0)
   \<and> honours_contract example_platform (example_live_state empty_display_service 0)
       [SurfaceChange example_display_service,
        ChannelOpen (example_message 1000 8 None GetSurfaceState),
        SurfaceChange example_display_service,
        ChannelClose (example_message 1000 8 None GetSurfaceState),
        MessageEvent (example_message 0 7 (Some \<lparr>channel_id = 7\<rparr>) GetSurfaceState)]
   \<and> \<not> notifications_pending (example_live_state polled_display_service 0) 7
   \<and> \<not> mutation_since_last_poll
       [SurfaceChange example_display_service,
        ChannelOpen (example_message 1000 8 None GetSurfaceState),
        SurfaceChange example_display_service,
        ChannelClose (example_message 1000 8 None GetSurfaceState),
        MessageEvent (example_message 0 7 (Some \<lparr>channel_id = 7\<rparr>) GetSurfaceState)]
   \<and> run example_platform (initial empty_display_service)
     [ChannelOpen (example_message 0 7 None GetSurfaceState),
      SurfaceChange example_display_service,
      MessageEvent (example_message 0 7 (Some \<lparr>channel_id = 7\<rparr>) GetSurfaceState),
      SurfaceChange example_display_service,
      SurfaceChange example_display_service,
      MessageEvent (example_message 0 7 (Some \<lparr>channel_id = 7\<rparr>) (GetSurfaceQueue 1 3))]
     = Inr (example_live_state example_display_service 1)
   \<and> notifications_pending (example_live_state example_display_service 1) 7
   \<and> mutation_since_last_poll
       [SurfaceChange example_display_service,
        MessageEvent (example_message 0 7 (Some \<lparr>channel_id = 7\<rparr>) GetSurfaceState),
        SurfaceChange example_display_service,
        SurfaceChange example_display_service,
        MessageEvent (example_message 0 7 (Some \<lparr>channel_id = 7\<rparr>) (GetSurfaceQueue 1 3))]"
proof -
  let ?open = "example_message 0 7 None GetSurfaceState"
  let ?poll = "MessageEvent (example_message 0 7 (Some \<lparr>channel_id = 7\<rparr>) GetSurfaceState)"
  let ?change = "SurfaceChange example_display_service"
  let ?es = "[?change, ChannelOpen (example_message 1000 8 None GetSurfaceState), ?change,
        ChannelClose (example_message 1000 8 None GetSurfaceState), ?poll]"
  let ?es' = "[?change, ?poll, ?change, ?change,
        MessageEvent (example_message 0 7 (Some \<lparr>channel_id = 7\<rparr>) (GetSurfaceQueue 1 3))]"
  let ?s0 = "initial empty_display_service"
  let ?s1 = "example_live_state empty_display_service 0"
  let ?armed = "example_live_state example_display_service 1"
  let ?polled = "example_live_state polled_display_service 0"
  have reach: "run example_platform ?s0 [] = Inr ?s0" by simp
  have idle: "display_manager ?s0 = None" by (simp add: initial_def)
  have ok: "lifecycle_ok ?s0 (ChannelOpen ?open)"
    by (simp add: lifecycle_ok_def initial_def example_message_def)
  have opened: "deliver example_platform ?s0 (ChannelOpen ?open) = Some ?s1"
    using run_example_open [of empty_display_service] ok
    by (simp split: option.splits)
  have admitted: "display_manager ?s1 = Some \<lparr>channel_id = 7\<rparr>"
    by (simp add: example_live_state_def)
  have poll_ok: "lifecycle_ok ?armed ?poll"
    by (simp add: lifecycle_ok_def example_live_state_def example_message_def)
  have poll: "deliver example_platform ?armed ?poll = Some ?polled"
    by (rule example_poll)
  have before: "run example_platform ?s1
      [?change, ChannelOpen (example_message 1000 8 None GetSurfaceState), ?change,
       ChannelClose (example_message 1000 8 None GetSurfaceState)] = Inr ?armed"
    by (simp add: example_platform_def example_message_def example_live_state_def
        lifecycle_ok_def deliver_def OnDisplaySurfaceChange_def SetNotificationsPending_def
        ModifyChannelEvents_def POLLIN_def Let_def
        OnChannelOpen_def OnChannelClose_def NewChannel_def SetChannel_def CloseChannel_def
        fun_upd_twist)
  have first: "run example_platform ?s1 [?change] = Inr ?armed"
    by (simp add: example_live_state_def lifecycle_ok_def deliver_def
        OnDisplaySurfaceChange_def SetNotificationsPending_def ModifyChannelEvents_def
        POLLIN_def Let_def)
  have after: "run example_platform ?polled
      [?change, ?change,
       MessageEvent (example_message 0 7 (Some \<lparr>channel_id = 7\<rparr>) (GetSurfaceQueue 1 3))]
      = Inr ?armed"
    by (simp add: example_platform_def example_message_def example_live_state_def
        lifecycle_ok_def deliver_def OnDisplaySurfaceChange_def SetNotificationsPending_def
        ModifyChannelEvents_def HandleMessage_def OnGetSurfaceQueue_def GetDisplaySurface_def
        GetQueue_def example_display_service_def example_surface_def POLLIN_def Let_def)
  have polled: "run example_platform ?armed [?poll] = Inr ?polled"
    using poll_ok poll by (rule run_single)
  have later: "run example_platform ?s1 ?es = Inr ?polled"
    using run_append [of example_platform ?s1
        "[?change, ChannelOpen (example_message 1000 8 None GetSurfaceState), ?change,
          ChannelClose (example_message 1000 8 None GetSurfaceState)]" "[?poll]"]
    by (simp only: before polled append.simps sum.case)
  have "run example_platform ?s1 ([?change] @ [?poll]) = Inr ?polled"
    by (simp only: run_append first polled sum.case)
  then have "run example_platform ?s1 (([?change] @ [?poll]) @
      [?change, ?change,
       MessageEvent (example_message 0 7 (Some \<lparr>channel_id = 7\<rparr>) (GetSurfaceQueue 1 3))])
      = Inr ?armed"
    by (simp only: run_append [of _ _ "[?change] @ [?poll]"] after sum.case)
  then have later': "run example_platform ?s1 ?es' = Inr ?armed"
    by (simp only: append.simps)
  have live: "\<not> list_ex (closes (channel_id \<lparr>channel_id = 7\<rparr>)) ?es"
    and live': "\<not> list_ex (closes (channel_id \<lparr>channel_id = 7\<rparr>)) ?es'"
    by (simp_all add: example_message_def)
  have all: "run example_platform ?s0 (ChannelOpen ?open # ?es) = Inr ?polled"
    and all': "run example_platform ?s0 (ChannelOpen ?open # ?es') = Inr ?armed"
    using ok opened later later' by simp_all
  have spec: "\<not> mutation_since_last_poll ?es"
    and spec': "mutation_since_last_poll ?es'"
    by (simp_all add: mutation_since_last_poll_def example_message_def)
  from notification_flag_tracks_mutations [OF reach idle ok opened admitted live]
  have "notifications_pending ?polled 7 \<longleftrightarrow> mutation_since_last_poll ?es"
    unfolding later by simp
  moreover
  from notification_flag_tracks_mutations [OF reach idle ok opened admitted live']
  have "notifications_pending ?armed 7 \<longleftrightarrow> mutation_since_last_poll ?es'"
    unfolding later' by simp
  moreover have "honours_contract example_platform ?s1 ?es"
    using later by (rule run_honours_contract)
  ultimately show ?thesis
    using all all' spec spec' by simp
qed

section \<open>Request handlers\<close>

lemma find_registry_None:
  "(\<forall>x \<in> set xs. \<not> P x) \<Longrightarrow> find P xs = None"
  by (simp add: find_None_iff)

text \<open>
  C5. \<open>OnGetSurfaceQueue\<close> returns \<open>EINVAL\<close> when the registry has no surface with
  the given id, when the surface found is not an application surface, and when that
  surface has no queue with the given id. When the queue exists the handler returns the
  status of \<open>CreateConsumerQueueHandle\<close> as it is: the queue's error when the creation
  fails, the consumer handle otherwise. The live channel, the registry and the endpoint
  are unchanged.
\<close>

theorem OnGetSurfaceQueue_result:
  fixes s m sid qid
  defines "ds \<equiv> display_service s"
  defines "r \<equiv> fst (OnGetSurfaceQueue s m sid qid)"
  defines "s' \<equiv> snd (OnGetSurfaceQueue s m sid qid)"
  shows "((\<forall>x \<in> set (surfaces ds). surface_id x \<noteq> sid) \<longrightarrow> r = Inl EINVAL)
       \<and> (\<forall>surface. GetDisplaySurface ds sid = Some surface \<longrightarrow>
             (surface_type surface \<noteq> Application \<longrightarrow> r = Inl EINVAL)
           \<and> (surface_type surface = Application \<longrightarrow>
                 ((\<forall>q \<in> set (queues surface). id' q \<noteq> qid) \<longrightarrow> r = Inl EINVAL)
               \<and> (\<forall>queue. GetQueue surface qid = Some queue \<longrightarrow>
                     r = CreateConsumerQueueHandle queue)))
       \<and> display_manager s' = display_manager s
       \<and> display_service s' = display_service s
       \<and> endpoint s' = endpoint s"
proof -
  have "r = Inl EINVAL" if "\<forall>x \<in> set (surfaces ds). surface_id x \<noteq> sid"
    using find_registry_None [of "surfaces ds" "\<lambda>x. surface_id x = sid"] that
    by (simp add: r_def ds_def OnGetSurfaceQueue_def GetDisplaySurface_def ErrorStatus_def)
  moreover have "r = Inl EINVAL"
    if "GetDisplaySurface ds sid = Some surface" "surface_type surface \<noteq> Application"
    for surface
    using that by (simp add: r_def ds_def OnGetSurfaceQueue_def ErrorStatus_def)
  moreover have "r = Inl EINVAL"
    if "GetDisplaySurface ds sid = Some surface" "surface_type surface = Application"
      "\<forall>q \<in> set (queues surface). id' q \<noteq> qid"
    for surface
    using find_registry_None [of "queues surface" "\<lambda>q. id' q = qid"] that
    by (simp add: r_def ds_def OnGetSurfaceQueue_def GetQueue_def ErrorStatus_def)
  moreover have "r = CreateConsumerQueueHandle queue"
    if "GetDisplaySurface ds sid = Some surface" "surface_type surface = Application"
      "GetQueue surface qid = Some queue"
    for surface queue
    using that
    by (simp add: r_def ds_def OnGetSurfaceQueue_def Let_def split: sum.splits)
  moreover have "display_manager s' = display_manager s \<and> endpoint s' = endpoint s
      \<and> display_service s' = display_service s"
    using OnGetSurfaceQueue_shape [of s m sid qid r s']
    by (simp add: r_def s'_def)
  ultimately show ?thesis
    by blast
qed

theorem OnGetSurfaceQueue_result_witness:
  "fst (OnGetSurfaceQueue (example_live_state example_display_service 0)
         (example_message 0 7 (Some \<lparr>channel_id = 7\<rparr>) (GetSurfaceQueue 9 3)) 9 3) = Inl EINVAL
   \<and> fst (OnGetSurfaceQueue (example_live_state example_display_service 0)
         (example_message 0 7 (Some \<lparr>channel_id = 7\<rparr>) (GetSurfaceQueue 2 3)) 2 3) = Inl EINVAL
   \<and> fst (OnGetSurfaceQueue (example_live_state example_display_service 0)
         (example_message 0 7 (Some \<lparr>channel_id = 7\<rparr>) (GetSurfaceQueue 1 9)) 1 9) = Inl EINVAL
   \<and> fst (OnGetSurfaceQueue (example_live_state example_display_service 0)
         (example_message 0 7 (Some \<lparr>channel_id = 7\<rparr>) (GetSurfaceQueue 1 4)) 1 4) = Inl 12
   \<and> fst (OnGetSurfaceQueue (example_live_state example_display_service 0)
         (example_message 0 7 (Some \<lparr>channel_id = 7\<rparr>) (GetSurfaceQueue 1 3)) 1 3) = Inr 42"
proof -
  let ?s = "example_live_state example_display_service 0"
  let ?ch = "Some \<lparr>channel_id = 7\<rparr>"
  have ds: "display_service ?s = example_display_service"
    by (simp add: example_live_state_def)
  have absent: "\<forall>x \<in> set (surfaces example_display_service). surface_id x \<noteq> 9"
    by (simp add: example_display_service_def example_surface_def)
  have direct: "GetDisplaySurface example_display_service 2 = Some (example_surface 2 Direct 1)"
    "surface_type (example_surface 2 Direct 1) \<noteq> Application"
    by (simp_all add: GetDisplaySurface_def example_display_service_def example_surface_def)
  have app: "GetDisplaySurface example_display_service 1 = Some (example_surface 1 Application 3)"
    "surface_type (example_surface 1 Application 3) = Application"
    by (simp_all add: GetDisplaySurface_def example_display_service_def example_surface_def)
  have noq: "\<forall>q \<in> set (queues (example_surface 1 Application 3)). id' q \<noteq> 9"
    by (simp add: example_surface_def)
  have q4: "GetQueue (example_surface 1 Application 3) 4
      = Some \<lparr>id' = 4, CreateConsumerQueueHandle = Inl 12\<rparr>"
    and q3: "GetQueue (example_surface 1 Application 3) 3
      = Some \<lparr>id' = 3, CreateConsumerQueueHandle = Inr 42\<rparr>"
    by (simp_all add: GetQueue_def example_surface_def)
  from OnGetSurfaceQueue_result [where s = ?s and sid = 9 and qid = 3
      and m = "example_message 0 7 ?ch (GetSurfaceQueue 9 3)"]
    OnGetSurfaceQueue_result [where s = ?s and sid = 2 and qid = 3
      and m = "example_message 0 7 ?ch (GetSurfaceQueue 2 3)"]
    OnGetSurfaceQueue_result [where s = ?s and sid = 1 and qid = 9
      and m = "example_message 0 7 ?ch (GetSurfaceQueue 1 9)"]
    OnGetSurfaceQueue_result [where s = ?s and sid = 1 and qid = 4
      and m = "example_message 0 7 ?ch (GetSurfaceQueue 1 4)"]
    OnGetSurfaceQueue_result [where s = ?s and sid = 1 and qid = 3
      and m = "example_message 0 7 ?ch (GetSurfaceQueue 1 3)"]
    absent direct app noq q4 q3
  show ?thesis
    unfolding ds by simp
qed

text \<open>
  C6. \<open>OnSetupNamedBuffer\<close> from an untrusted requester returns \<open>EPERM\<close>; the outcome
  does not depend on the display service's \<open>SetupNamedBuffer\<close> (it is not called), and
  the live channel, the display service and the endpoint are unchanged (the handler writes
  one error line to the log). From a trusted requester the request is forwarded, and the
  display service's status and new state are returned as they are.
\<close>

theorem OnSetupNamedBuffer_trust:
  fixes p s m name sz usage
  defines "trusted \<equiv> GetEffectiveUserId m = AID_ROOT \<or> IsTrustedUid p (GetEffectiveUserId m)"
  defines "forwarded \<equiv> DisplayService_SetupNamedBuffer p (display_service s) name sz usage"
  shows "(\<not> trusted \<longrightarrow>
            fst (OnSetupNamedBuffer p s m name sz usage) = Inl EPERM
          \<and> display_manager (snd (OnSetupNamedBuffer p s m name sz usage)) = display_manager s
          \<and> display_service (snd (OnSetupNamedBuffer p s m name sz usage)) = display_service s
          \<and> endpoint (snd (OnSetupNamedBuffer p s m name sz usage)) = endpoint s
          \<and> (\<forall>f. OnSetupNamedBuffer (p\<lparr>DisplayService_SetupNamedBuffer := f\<rparr>) s m name sz usage
                   = OnSetupNamedBuffer p s m name sz usage))
       \<and> (trusted \<longrightarrow>
            OnSetupNamedBuffer p s m name sz usage
              = (fst forwarded, s\<lparr>display_service := snd forwarded\<rparr>))"
  by (simp add: OnSetupNamedBuffer_def trusted_def forwarded_def Let_def ALOGE_def ErrorStatus_def
      split: prod.splits)

theorem OnSetupNamedBuffer_trust_witness:
  "fst (OnSetupNamedBuffer example_platform (example_live_state empty_display_service 0)
         (example_message 5000 7 (Some \<lparr>channel_id = 7\<rparr>) (SetupNamedBuffer ''pose'' 64 0))
         ''pose'' 64 0) = Inl EPERM
   \<and> display_service (snd (OnSetupNamedBuffer example_platform
         (example_live_state empty_display_service 0)
         (example_message 5000 7 (Some \<lparr>channel_id = 7\<rparr>) (SetupNamedBuffer ''pose'' 64 0))
         ''pose'' 64 0)) = empty_display_service
   \<and> OnSetupNamedBuffer example_platform (example_live_state empty_display_service 0)
         (example_message 1000 7 (Some \<lparr>channel_id = 7\<rparr>) (SetupNamedBuffer ''pose'' 64 0))
         ''pose'' 64 0
       = (Inr 0, example_live_state \<lparr>surfaces = [], named_buffers = [(''pose'', 0)]\<rparr> 0)"
  using OnSetupNamedBuffer_trust [where p = example_platform
      and s = "example_live_state empty_display_service 0"
      and m = "example_message 5000 7 (Some \<lparr>channel_id = 7\<rparr>) (SetupNamedBuffer ''pose'' 64 0)"
      and name = "''pose''" and sz = 64 and usage = 0]
    OnSetupNamedBuffer_trust [where p = example_platform
      and s = "example_live_state empty_display_service 0"
      and m = "example_message 1000 7 (Some \<lparr>channel_id = 7\<rparr>) (SetupNamedBuffer ''pose'' 64 0)"
      and name = "''pose''" and sz = 64 and usage = 0]
  by (simp add: example_platform_def example_message_def example_live_state_def
      empty_display_service_def AID_ROOT_def)

text \<open>
  C7. \<open>OnGetConfigurationData\<close> changes no state. It returns \<open>EINVAL\<close> for a type
  that is none of LensMetrics, DeviceMetrics, DeviceConfiguration; otherwise it resolves
  the fixed property name of the type: \<open>ENOENT\<close> when the property gives the empty path,
  the error number of the read when reading the file fails, and the file's contents when
  it succeeds.
\<close>

theorem OnGetConfigurationData_result:
  fixes p s m config_type
  defines "r \<equiv> fst (OnGetConfigurationData p s m config_type)"
  shows "snd (OnGetConfigurationData p s m config_type) = s
       \<and> (config_type \<noteq> kLensMetrics \<and> config_type \<noteq> kDeviceMetrics
            \<and> config_type \<noteq> kDeviceConfiguration \<longrightarrow> r = Inl EINVAL)
       \<and> (config_type = kLensMetrics \<longrightarrow> r = resolve_property p ''ro.dvr.lens_metrics'')
       \<and> (config_type = kDeviceMetrics \<longrightarrow> r = resolve_property p ''ro.dvr.device_metrics'')
       \<and> (config_type = kDeviceConfiguration \<longrightarrow>
            r = resolve_property p ''ro.dvr.device_configuration'')
       \<and> (\<forall>name. GetProperty p name '''' = [] \<longrightarrow> resolve_property p name = Inl ENOENT)
       \<and> (\<forall>name. GetProperty p name '''' \<noteq> [] \<longrightarrow>
             resolve_property p name = ReadFileToString p (GetProperty p name ''''))"
  by (simp add: r_def OnGetConfigurationData_state resolve_property_def Let_def)
    (simp add: OnGetConfigurationData_def ErrorStatus_def Let_def
      kLensMetrics_def kDeviceMetrics_def kDeviceConfiguration_def
      kDvrLensMetricsProperty_def kDvrDeviceMetricsProperty_def kDvrDeviceConfigProperty_def
      split: sum.splits)

theorem OnGetConfigurationData_result_witness:
  "fst (OnGetConfigurationData example_platform (example_live_state empty_display_service 0)
         (example_message 0 7 (Some \<lparr>channel_id = 7\<rparr>) (GetConfigurationData 1)) 1)
     = Inr ''metrics''
   \<and> fst (OnGetConfigurationData example_platform (example_live_state empty_display_service 0)
         (example_message 0 7 (Some \<lparr>channel_id = 7\<rparr>) (GetConfigurationData 0)) 0)
     = Inl 13
   \<and> fst (OnGetConfigurationData example_platform (example_live_state empty_display_service 0)
         (example_message 0 7 (Some \<lparr>channel_id = 7\<rparr>) (GetConfigurationData 2)) 2)
     = Inl ENOENT
   \<and> fst (OnGetConfigurationData example_platform (example_live_state empty_display_service 0)
         (example_message 0 7 (Some \<lparr>channel_id = 7\<rparr>) (GetConfigurationData 3)) 3)
     = Inl EINVAL"
  using OnGetConfigurationData_result [where p = example_platform
      and s = "example_live_state empty_display_service 0" and config_type = 1
      and m = "example_message 0 7 (Some \<lparr>channel_id = 7\<rparr>) (GetConfigurationData 1)"]
    OnGetConfigurationData_result [where p = example_platform
      and s = "example_live_state empty_display_service 0" and config_type = 0
      and m = "example_message 0 7 (Some \<lparr>channel_id = 7\<rparr>) (GetConfigurationData 0)"]
    OnGetConfigurationData_result [where p = example_platform
      and s = "example_live_state empty_display_service 0" and config_type = 2
      and m = "example_message 0 7 (Some \<lparr>channel_id = 7\<rparr>) (GetConfigurationData 2)"]
    OnGetConfigurationData_result [where p = example_platform
      and s = "example_live_state empty_display_service 0" and config_type = 3
      and m = "example_message 0 7 (Some \<lparr>channel_id = 7\<rparr>) (GetConfigurationData 3)"]
  by (simp add: example_platform_def resolve_property_def
      kLensMetrics_def kDeviceMetrics_def kDeviceConfiguration_def
      kDvrLensMetricsProperty_def kDvrDeviceMetricsProperty_def kDvrDeviceConfigProperty_def)

section \<open>Readiness bits and identity\<close>

lemma other_bits_kept:
  "(if pending then w OR POLLIN else w AND NOT POLLIN) AND NOT POLLIN = w AND NOT POLLIN"
  by (simp add: bit.conj_disj_distrib2 and.assoc)

lemma POLLIN_follows:
  "((if pending then w OR POLLIN else w AND NOT POLLIN) AND POLLIN \<noteq> 0) = pending"
  by (simp add: POLLIN_def bit.conj_disj_distrib2 and.assoc)

text \<open>
  C8, as amended. \<open>SetNotificationsPending(pending)\<close> asks the transport to set
  \<open>POLLIN\<close> and clear nothing when \<open>pending\<close> is true, and to clear \<open>POLLIN\<close> and set
  nothing when it is false. On an open channel the \<open>POLLIN\<close> bit equals \<open>pending\<close>
  afterwards and every other readiness bit keeps its value. When the transport call fails
  the failure is logged and nothing else changes: the call returns normally.
\<close>

theorem SetNotificationsPending_toggles_POLLIN:
  fixes dm pending s
  defines "s' \<equiv> SetNotificationsPending dm pending s"
  shows "display_manager s' = display_manager s
       \<and> display_service s' = display_service s
       \<and> (\<forall>cid. cid \<noteq> channel_id dm \<longrightarrow> endpoint s' cid = endpoint s cid)
       \<and> (endpoint s (channel_id dm) = None \<longrightarrow>
            s' = s\<lparr>logcat := logcat s @
                   [(''DisplayManager::SetNotificationPending: Failed to modify channel events: %s'',
                     [EINVAL])]\<rparr>)
       \<and> (\<forall>cd. endpoint s (channel_id dm) = Some cd \<longrightarrow>
             endpoint s' (channel_id dm) =
               Some (cd\<lparr>event_set := (if pending then event_set cd OR POLLIN
                                        else event_set cd AND NOT POLLIN)\<rparr>)
           \<and> (notifications_pending s' (channel_id dm) \<longleftrightarrow> pending)
           \<and> (\<forall>cd'. endpoint s' (channel_id dm) = Some cd' \<longrightarrow>
                 event_set cd' AND NOT POLLIN = event_set cd AND NOT POLLIN)
           \<and> logcat s' = logcat s)"
proof -
  have fail: "s' = s\<lparr>logcat := logcat s @
                   [(''DisplayManager::SetNotificationPending: Failed to modify channel events: %s'',
                     [EINVAL])]\<rparr>"
    if "endpoint s (channel_id dm) = None"
    using that
    by (simp add: s'_def SetNotificationsPending_def ModifyChannelEvents_def ALOGE_def
        ErrorStatus_def)
  have others: "endpoint s' cid = endpoint s cid" if "cid \<noteq> channel_id dm" for cid
    using that by (simp add: s'_def SetNotificationsPending_endpoint)
  have own: "endpoint s' (channel_id dm) =
               Some (cd\<lparr>event_set := (if pending then event_set cd OR POLLIN
                                        else event_set cd AND NOT POLLIN)\<rparr>)"
    and log: "logcat s' = logcat s"
    if "endpoint s (channel_id dm) = Some cd" for cd
    using that
    by (simp_all add: s'_def SetNotificationsPending_def ModifyChannelEvents_def)
  have flag: "notifications_pending s' (channel_id dm) \<longleftrightarrow> pending"
    if "endpoint s (channel_id dm) = Some cd" for cd
    using own [OF that] POLLIN_follows [of pending "event_set cd"]
    by (simp add: notifications_pending_def)
  have kept: "event_set cd' AND NOT POLLIN = event_set cd AND NOT POLLIN"
    if "endpoint s (channel_id dm) = Some cd" "endpoint s' (channel_id dm) = Some cd'" for cd cd'
    using own [OF that(1)] that(2) other_bits_kept [of pending "event_set cd"]
    by auto
  have "display_manager s' = display_manager s" "display_service s' = display_service s"
    by (simp_all add: s'_def)
  with fail others own log flag kept show ?thesis
    by blast
qed

theorem SetNotificationsPending_toggles_POLLIN_witness:
  "endpoint (SetNotificationsPending \<lparr>channel_id = 7\<rparr> True
               (example_live_state empty_display_service 4)) 7
     = Some \<lparr>channel_state = Some \<lparr>channel_id = 7\<rparr>, event_set = 5\<rparr>
   \<and> endpoint (SetNotificationsPending \<lparr>channel_id = 7\<rparr> False
               (example_live_state empty_display_service 5)) 7
     = Some \<lparr>channel_state = Some \<lparr>channel_id = 7\<rparr>, event_set = 4\<rparr>
   \<and> logcat (SetNotificationsPending \<lparr>channel_id = 8\<rparr> True
               (example_live_state empty_display_service 0))
     = [(''DisplayManager::SetNotificationPending: Failed to modify channel events: %s'', [22])]"
  using SetNotificationsPending_toggles_POLLIN [where dm = "\<lparr>channel_id = 7\<rparr>"
      and pending = True and s = "example_live_state empty_display_service 4"]
    SetNotificationsPending_toggles_POLLIN [where dm = "\<lparr>channel_id = 7\<rparr>"
      and pending = False and s = "example_live_state empty_display_service 5"]
    SetNotificationsPending_toggles_POLLIN [where dm = "\<lparr>channel_id = 8\<rparr>"
      and pending = True and s = "example_live_state empty_display_service 0"]
  by (simp add: example_live_state_def POLLIN_def EINVAL_def)

text \<open>
  C8 as stated fails: no writable or idle signal takes part. Disarming a channel with no
  readiness bits does not set \<open>POLLOUT\<close>, and arming a channel whose \<open>POLLOUT\<close> bit is
  set does not clear it.
\<close>

theorem SetNotificationsPending_writable_counterexample:
  "\<not> (case endpoint (SetNotificationsPending \<lparr>channel_id = 7\<rparr> False
                       (example_live_state empty_display_service 0)) 7 of
         None \<Rightarrow> False
       | Some cd \<Rightarrow> event_set cd AND POLLIN = 0 \<and> event_set cd AND POLLOUT \<noteq> 0)
   \<and> \<not> (case endpoint (SetNotificationsPending \<lparr>channel_id = 7\<rparr> True
                       (example_live_state empty_display_service 4)) 7 of
         None \<Rightarrow> False
       | Some cd \<Rightarrow> event_set cd AND POLLIN \<noteq> 0 \<and> event_set cd AND POLLOUT = 0)"
  by (simp add: SetNotificationsPending_def ModifyChannelEvents_def example_live_state_def
      POLLIN_def POLLOUT_def)

text \<open>
  C10. Two messages that differ only in the requester's effective user id get the same
  reply and the same new state from \<open>GetSurfaceState\<close>, \<open>GetSurfaceQueue\<close> and
  \<open>GetConfigurationData\<close>: these handlers never read the identity. \<open>SetupNamedBuffer\<close>
  and channel admission do: the same request gets different answers from an untrusted and
  from the root identity.
\<close>

theorem identity_not_rechecked:
  "(GetOp m = GetSurfaceState \<or> (\<exists>sid qid. GetOp m = GetSurfaceQueue sid qid)
      \<or> (\<exists>config_type. GetOp m = GetConfigurationData config_type) \<longrightarrow>
      HandleMessage p s (m\<lparr>GetEffectiveUserId := uid\<rparr>) = HandleMessage p s m)
   \<and> OnGetSurfaceState s (m\<lparr>GetEffectiveUserId := uid\<rparr>) = OnGetSurfaceState s m
   \<and> OnGetSurfaceQueue s (m\<lparr>GetEffectiveUserId := uid\<rparr>) sid qid = OnGetSurfaceQueue s m sid qid
   \<and> OnGetConfigurationData p s (m\<lparr>GetEffectiveUserId := uid\<rparr>) config_type
       = OnGetConfigurationData p s m config_type
   \<and> fst (OnSetupNamedBuffer example_platform (example_live_state empty_display_service 0)
            (example_message 5000 7 (Some \<lparr>channel_id = 7\<rparr>) (SetupNamedBuffer ''pose'' 64 0))
            ''pose'' 64 0)
       \<noteq> fst (OnSetupNamedBuffer example_platform (example_live_state empty_display_service 0)
            (example_message 0 7 (Some \<lparr>channel_id = 7\<rparr>) (SetupNamedBuffer ''pose'' 64 0))
            ''pose'' 64 0)
   \<and> fst (OnChannelOpen example_platform (initial empty_display_service)
            (example_message 5000 7 None GetSurfaceState))
       \<noteq> fst (OnChannelOpen example_platform (initial empty_display_service)
            (example_message 0 7 None GetSurfaceState))"
proof -
  have "HandleMessage p s (m\<lparr>GetEffectiveUserId := uid\<rparr>) = HandleMessage p s m"
    if "GetOp m = GetSurfaceState \<or> (\<exists>sid qid. GetOp m = GetSurfaceQueue sid qid)
      \<or> (\<exists>config_type. GetOp m = GetConfigurationData config_type)"
    using that
    by (auto simp: HandleMessage_def OnGetSurfaceState_def OnGetSurfaceQueue_def
        OnGetConfigurationData_def)
  moreover have "OnGetSurfaceState s (m\<lparr>GetEffectiveUserId := uid\<rparr>) = OnGetSurfaceState s m"
    by (simp add: OnGetSurfaceState_def)
  moreover have "OnGetSurfaceQueue s (m\<lparr>GetEffectiveUserId := uid\<rparr>) sid qid
      = OnGetSurfaceQueue s m sid qid"
    by (simp add: OnGetSurfaceQueue_def)
  moreover have "OnGetConfigurationData p s (m\<lparr>GetEffectiveUserId := uid\<rparr>) config_type
       = OnGetConfigurationData p s m config_type"
    by (simp add: OnGetConfigurationData_def)
  moreover have "fst (OnSetupNamedBuffer example_platform (example_live_state empty_display_service 0)
            (example_message 5000 7 (Some \<lparr>channel_id = 7\<rparr>) (SetupNamedBuffer ''pose'' 64 0))
            ''pose'' 64 0)
       \<noteq> fst (OnSetupNamedBuffer example_platform (example_live_state empty_display_service 0)
            (example_message 0 7 (Some \<lparr>channel_id = 7\<rparr>) (SetupNamedBuffer ''pose'' 64 0))
            ''pose'' 64 0)"
    by (simp add: OnSetupNamedBuffer_def example_platform_def example_message_def
        example_live_state_def empty_display_service_def AID_ROOT_def ErrorStatus_def Let_def)
  moreover have "fst (OnChannelOpen example_platform (initial empty_display_service)
            (example_message 5000 7 None GetSurfaceState))
       \<noteq> fst (OnChannelOpen example_platform (initial empty_display_service)
            (example_message 0 7 None GetSurfaceState))"
    by (simp add: OnChannelOpen_def example_platform_def example_message_def initial_def
        AID_ROOT_def Let_def)
  ultimately show ?thesis
    by blast
qed

theorem identity_not_rechecked_witness:
  "HandleMessage example_platform (example_live_state example_display_service 1)
     (example_message 5000 7 (Some \<lparr>channel_id = 7\<rparr>) GetSurfaceState)
   = HandleMessage example_platform (example_live_state example_display_service 1)
     (example_message 0 7 (Some \<lparr>channel_id = 7\<rparr>) GetSurfaceState)
   \<and> HandleMessage example_platform (example_live_state example_display_service 1)
     (example_message 5000 7 (Some \<lparr>channel_id = 7\<rparr>) (GetConfigurationData 1))
   = Some (ConfigurationDataReply (Inr ''metrics''),
           example_live_state example_display_service 1)"
proof -
  let ?s = "example_live_state example_display_service 1"
  let ?m = "example_message 0 7 (Some \<lparr>channel_id = 7\<rparr>) GetSurfaceState"
  let ?c = "example_message 0 7 (Some \<lparr>channel_id = 7\<rparr>) (GetConfigurationData 1)"
  have m: "?m\<lparr>GetEffectiveUserId := 5000\<rparr>
      = example_message 5000 7 (Some \<lparr>channel_id = 7\<rparr>) GetSurfaceState"
    and c: "?c\<lparr>GetEffectiveUserId := 5000\<rparr>
      = example_message 5000 7 (Some \<lparr>channel_id = 7\<rparr>) (GetConfigurationData 1)"
    by (simp_all add: example_message_def)
  have op: "GetOp ?m = GetSurfaceState" "GetOp ?c = GetConfigurationData 1"
    by (simp_all add: example_message_def)
  have root: "HandleMessage example_platform ?s ?c
      = Some (ConfigurationDataReply (Inr ''metrics''), ?s)"
    by (simp add: HandleMessage_def OnGetConfigurationData_def example_message_def
        example_platform_def kLensMetrics_def kDeviceMetrics_def kDeviceConfiguration_def
        kDvrLensMetricsProperty_def kDvrDeviceMetricsProperty_def Let_def)
  from identity_not_rechecked [where m = ?m and p = example_platform and s = ?s and uid = 5000]
    identity_not_rechecked [where m = ?c and p = example_platform and s = ?s and uid = 5000]
    op root
  show ?thesis
    unfolding m c by simp
qed

end
